theory Spec2Isabelle
  imports Complex_Main "HOL-Library.Sublist" "HOL-Library.Product_Lexorder"
begin

section \<open>Data model (database/models.py)\<close>

text \<open>
  Python \<open>float\<close> fields are modelled as \<open>real\<close>, unbounded \<open>int\<close> as \<open>int\<close>,
  \<open>str\<close> as \<open>string\<close>. The \<open>created_at\<close>/\<open>updated_at\<close> timestamps are left out:
  no operation below reads them.
\<close>

record Producto =
  id_prod :: string
  categoria :: string
  tipo :: string
  producto :: string
  foto :: "string option"
  color :: "string option"
  precio :: real
  stock :: int
  descuento :: real
  precio_final :: real
  descripcion :: "string option"

record CarritoItem =
  producto_id :: string
  producto_nombre :: string
  cantidad :: int
  precio_unitario :: real
  subtotal :: real

text \<open>\<open>CarritoItem.__init__\<close>: the subtotal is computed from the two other fields.\<close>

definition CarritoItem_init :: "string \<Rightarrow> string \<Rightarrow> int \<Rightarrow> real \<Rightarrow> CarritoItem" where
  "CarritoItem_init pid nombre cant pu =
     \<lparr>producto_id = pid, producto_nombre = nombre, cantidad = cant,
      precio_unitario = pu, subtotal = of_int cant * pu\<rparr>"

record Carrito =
  session_id :: string
  items :: "CarritoItem list"

text \<open>
  The loop of \<open>Carrito.agregar_item\<close>: the first item whose id is the product's id is
  updated in place and the method returns; \<open>None\<close> means the loop ran to its end.
\<close>

fun actualizar_existente :: "CarritoItem list \<Rightarrow> string \<Rightarrow> int \<Rightarrow> CarritoItem list option" where
  "actualizar_existente [] pid n = None"
| "actualizar_existente (item # rest) pid n =
     (if producto_id item = pid
      then Some (item\<lparr>cantidad := cantidad item + n,
                       subtotal := of_int (cantidad item + n) * precio_unitario item\<rparr> # rest)
      else map_option ((#) item) (actualizar_existente rest pid n))"

definition agregar_item :: "Carrito \<Rightarrow> Producto \<Rightarrow> int \<Rightarrow> Carrito" where
  "agregar_item c p n =
     (case actualizar_existente (items c) (id_prod p) n of
        Some its \<Rightarrow> c\<lparr>items := its\<rparr>
      | None \<Rightarrow> c\<lparr>items := items c @
                  [CarritoItem_init (id_prod p) (producto p) n (precio_final p)]\<rparr>)"

text \<open>A sequence of \<open>agregar_item\<close> calls, each with its product and quantity.\<close>

definition agregar_items :: "Carrito \<Rightarrow> (Producto \<times> int) list \<Rightarrow> Carrito" where
  "agregar_items c calls = foldl (\<lambda>c (p, n). agregar_item c p n) c calls"

definition items_de :: "string \<Rightarrow> Carrito \<Rightarrow> CarritoItem list" where
  "items_de pid c = filter (\<lambda>i. producto_id i = pid) (items c)"

section \<open>Python strings\<close>

text \<open>
  A \<open>str\<close> is a list of bytes: ASCII characters are themselves and a code point beyond
  ASCII is its UTF-8 sequence, so that substring tests and replacements agree with
  Python's. Two operations are modelled on ASCII only: \<open>lower\<close> maps \<open>A\<close>..\<open>Z\<close> and
  leaves other bytes alone, and the white space of \<open>strip\<close> and of \<open>\s\<close> is the ASCII white
  space. \<open>replace\<close> is \<open>str.replace\<close> for a non-empty \<open>old\<close> (the code only replaces tags),
  \<open>split\<close> is \<open>str.split\<close> on a one-character separator, \<open>py_in sub s\<close> is
  \<open>sub in s\<close>.
\<close>

definition nl :: string where "nl = [CHR 0x0A]"

definition is_space :: "char \<Rightarrow> bool" where
  "is_space c = (c \<in> set [CHR 0x20, CHR 0x09, CHR 0x0A, CHR 0x0B, CHR 0x0C, CHR 0x0D,
                            CHR 0x1C, CHR 0x1D, CHR 0x1E, CHR 0x1F])"

definition is_digit :: "char \<Rightarrow> bool" where
  "is_digit c = (c \<in> set ''0123456789'')"

definition lower_char :: "char \<Rightarrow> char" where
  "lower_char c = (let n = (of_char c :: nat) in if 65 \<le> n \<and> n \<le> 90 then char_of (n + 32) else c)"

definition lower :: "string \<Rightarrow> string" where
  "lower s = map lower_char s"

definition strip :: "string \<Rightarrow> string" where
  "strip s = rev (dropWhile is_space (rev (dropWhile is_space s)))"

fun py_in :: "string \<Rightarrow> string \<Rightarrow> bool" where
  "py_in sub [] = (sub = [])"
| "py_in sub (c # cs) = (prefix sub (c # cs) \<or> py_in sub cs)"

fun replace :: "string \<Rightarrow> string \<Rightarrow> string \<Rightarrow> string" where
  "replace old new [] = []"
| "replace old new (c # cs) =
     (if prefix old (c # cs) then new @ replace old new (drop (length old - 1) cs)
      else c # replace old new cs)"

fun split :: "char \<Rightarrow> string \<Rightarrow> string list" where
  "split sep [] = [[]]"
| "split sep (c # cs) =
     (if c = sep then [] # split sep cs
      else (case split sep cs of [] \<Rightarrow> [[c]] | p # ps \<Rightarrow> (c # p) # ps))"

fun join :: "string \<Rightarrow> string list \<Rightarrow> string" where
  "join sep [] = []"
| "join sep [x] = x"
| "join sep (x # y # ys) = x @ sep @ join sep (y # ys)"

section \<open>Regular expressions\<close>

text \<open>
  The patterns of the code are run by a small backtracking matcher that returns, as
  Python's \<open>re\<close> does, the results of a pattern in priority order: the first alternative
  first, the longest repetition first. \<open>rx_go r (s, g)\<close> lists the states (rest of the
  input, captured groups) in which \<open>r\<close> can stop when started on \<open>s\<close>. \<open>search\<close> is
  \<open>re.search\<close> (the first result at the leftmost position that has one), \<open>findall\<close> is
  the scan of \<open>re.findall\<close> (successive non-overlapping matches).
\<close>

datatype rx = Eps | Sat "char \<Rightarrow> bool" | Seq rx rx | Alt rx rx | Star rx | Grp nat rx

type_synonym rx_state = "string \<times> (nat \<times> string) list"

function rx_go :: "rx \<Rightarrow> rx_state \<Rightarrow> rx_state list" where
  "rx_go Eps st = [st]"
| "rx_go (Sat p) (s, g) = (case s of [] \<Rightarrow> [] | x # xs \<Rightarrow> if p x then [(xs, g)] else [])"
| "rx_go (Seq a b) st = concat (map (rx_go b) (rx_go a st))"
| "rx_go (Alt a b) st = rx_go a st @ rx_go b st"
| "rx_go (Star a) (s, g) =
     concat (map (\<lambda>st'. if length (fst st') < length s then rx_go (Star a) st' else [])
                 (rx_go a (s, g))) @ [(s, g)]"
| "rx_go (Grp n a) (s, g) =
     map (\<lambda>(s', g'). (s', (n, take (length s - length s') s) # g')) (rx_go a (s, g))"
  by pat_completeness auto
termination
  by (relation "(\<lambda>(r, s, g). size r) <*mlex*> measure (\<lambda>(r, s, g). length s)")
     (auto simp: wf_mlex mlex_less mlex_leq)

definition Chr :: "char \<Rightarrow> rx" where "Chr c = Sat (\<lambda>x. x = c)"
definition Str :: "string \<Rightarrow> rx" where "Str s = foldr (\<lambda>c r. Seq (Chr c) r) s Eps"
definition Opt :: "rx \<Rightarrow> rx" where "Opt r = Alt r Eps"
definition Plus :: "rx \<Rightarrow> rx" where "Plus r = Seq r (Star r)"

record rx_match =
  group0 :: string
  groups :: "(nat \<times> string) list"
  resto :: string

definition rx_group :: "rx_match \<Rightarrow> nat \<Rightarrow> string" where
  "rx_group m n = (case map_of (groups m) n of Some s \<Rightarrow> s | None \<Rightarrow> [])"

definition rx_match_at :: "rx \<Rightarrow> string \<Rightarrow> rx_match option" where
  "rx_match_at r s = (case rx_go r (s, []) of [] \<Rightarrow> None
     | (s', g) # _ \<Rightarrow> Some \<lparr>group0 = take (length s - length s') s, groups = g, resto = s'\<rparr>)"

fun search :: "rx \<Rightarrow> string \<Rightarrow> rx_match option" where
  "search r [] = rx_match_at r []"
| "search r (c # cs) = (case rx_match_at r (c # cs) of Some m \<Rightarrow> Some m | None \<Rightarrow> search r cs)"

function findall :: "rx \<Rightarrow> string \<Rightarrow> rx_match list" where
  "findall r [] = (case rx_match_at r [] of Some m \<Rightarrow> [m] | None \<Rightarrow> [])"
| "findall r (c # cs) =
     (case rx_match_at r (c # cs) of
        None \<Rightarrow> findall r cs
      | Some m \<Rightarrow> m # (if length (resto m) < length (c # cs) then findall r (resto m) else findall r cs))"
  by pat_completeness auto
termination
  by (relation "measure (\<lambda>(r, s). length s)") auto

text \<open>
  Sequences and alternatives of several patterns; \<open>\d\<close> and \<open>\s\<close> (ASCII).
\<close>

definition Seqs :: "rx list \<Rightarrow> rx" where "Seqs rs = foldr Seq rs Eps"
definition Alts :: "rx list \<Rightarrow> rx" where "Alts rs = foldr Alt (butlast rs) (last rs)"
definition Dig :: rx where "Dig = Sat is_digit"
definition Spc :: rx where "Spc = Sat is_space"

definition is_alnum_us_dash :: "char \<Rightarrow> bool" where
  "is_alnum_us_dash c = (c \<in> set ''abcdefghijklmnopqrstuvwxyzABCDEFGHIJKLMNOPQRSTUVWXYZ0123456789_-'')"

text \<open>
  \<open>str.isdigit\<close> on ASCII digits, the value of a string of digits (\<open>float\<close> and
  \<open>int\<close> of such a string, as a number), and \<open>str\<close> of an integer.
\<close>

definition isdigit :: "string \<Rightarrow> bool" where
  "isdigit s = (s \<noteq> [] \<and> list_all is_digit s)"

definition digit_val :: "char \<Rightarrow> nat" where
  "digit_val c = of_char c - 48"

definition dec_val :: "string \<Rightarrow> nat" where
  "dec_val s = foldl (\<lambda>n c. 10 * n + digit_val c) 0 s"

fun str_nat :: "nat \<Rightarrow> string" where
  "str_nat n = (if n < 10 then [char_of (48 + n)] else str_nat (n div 10) @ [char_of (48 + n mod 10)])"

declare str_nat.simps [simp del]

definition str_int :: "int \<Rightarrow> string" where
  "str_int i = (if i < 0 then CHR ''-'' # str_nat (nat (- i)) else str_nat (nat i))"

text \<open>
  The exceptions that the modelled code can raise: \<open>ValueError\<close> from \<open>float\<close>,
  \<open>AttributeError\<close> from a missing method or from \<open>.get\<close> on a value that is not a dict,
  \<open>re.error\<close> from a replacement template.
\<close>

datatype error = ValueError | AttributeError | ReError

text \<open>
  \<open>float(precio)\<close> for a string that passed \<open>precio.replace(".", "").isdigit()\<close>, i.e.
  digits and dots with at least one digit: a number when there is at most one dot
  (\<open>5.\<close> and \<open>.5\<close> are accepted by Python), \<open>ValueError\<close> with two dots or more.
\<close>

definition float_digitos :: "string \<Rightarrow> error + real" where
  "float_digitos s =
     (case split CHR ''.'' s of
        [a] \<Rightarrow> Inr (real (dec_val a))
      | [a, b] \<Rightarrow> Inr (real (dec_val a) + real (dec_val b) / 10 ^ length b)
      | _ \<Rightarrow> Inl ValueError)"

text \<open>
  \<open>AIBrain._convertir_drive_url\<close> (ai_brain.py, lines 44-62), with its two patterns
  \<open>/(?:file/)?d/([a-zA-Z0-9_-]+)\<close> and \<open>[?&]id=([a-zA-Z0-9_-]+)\<close>.
\<close>

definition pat_drive_1 :: rx where
  "pat_drive_1 = Seqs [Chr CHR ''/'', Opt (Str ''file/''), Str ''d/'', Grp 1 (Plus (Sat is_alnum_us_dash))]"
definition pat_drive_2 :: rx where
  "pat_drive_2 = Seqs [Sat (\<lambda>c. c \<in> set ''?&''), Str ''id='', Grp 1 (Plus (Sat is_alnum_us_dash))]"

definition convertir_drive_url :: "string \<Rightarrow> string" where
  "convertir_drive_url url =
     (if url = [] then []
      else case search pat_drive_1 url of
        Some m \<Rightarrow> ''https://lh3.googleusercontent.com/d/'' @ rx_group m 1 @ ''=w300''
      | None \<Rightarrow> (case search pat_drive_2 url of
          Some m \<Rightarrow> ''https://lh3.googleusercontent.com/d/'' @ rx_group m 1 @ ''=w300''
        | None \<Rightarrow> url))"

section \<open>The conversation engine (services/ai_brain.py)\<close>

subsection \<open>Cards, context, conversation, side effects\<close>

text \<open>
  The product cards are Python dicts; the record has one field per key that the code
  writes, optional where some cards lack the key. Product ids are strings (as in the
  catalogue rows and in \<open>Producto.id\<close>), so \<open>str(id)\<close> is the id itself.
\<close>

record ProductoDisplay =
  pd_id :: string
  pd_nombre :: string
  pd_precio :: string
  pd_precio_num :: real
  pd_imagen :: string
  pd_categoria :: "string option"
  pd_tipo :: "string option"
  pd_es_upsell :: "bool option"
  pd_descuento :: "real option"
  pd_precio_original :: "string option option"
  pd_en_presupuesto :: "bool option"

text \<open>
  \<open>Conversacion.contexto\<close> is a dict that the code reads and writes under literal keys
  only: a record with one optional field per key (\<open>None\<close>: the key is absent).
\<close>

record Contexto =
  ocasion :: "string option"
  presupuesto_min :: "real option"
  presupuesto_max :: "real option"
  color_preferido :: "string option"
  flor_preferida :: "string option"
  tipo_producto :: "string option"
  busca_economico :: "bool option"
  busca_descuento :: "bool option"
  busca_premium :: "bool option"
  presupuesto_sugerido :: "int option"
  upsell_producto :: "ProductoDisplay option"
  ultimo_upsell_id :: "string option"

definition contexto_vacio :: Contexto where
  "contexto_vacio = \<lparr>ocasion = None, presupuesto_min = None, presupuesto_max = None,
     color_preferido = None, flor_preferida = None, tipo_producto = None,
     busca_economico = None, busca_descuento = None, busca_premium = None,
     presupuesto_sugerido = None, upsell_producto = None, ultimo_upsell_id = None\<rparr>"

record MensajeChat =
  role :: string
  content :: string

datatype CanalMensaje = WHATSAPP | INSTAGRAM | WIDGET

record Conversacion =
  conv_session_id :: string
  canal :: CanalMensaje
  user_id :: "string option"
  mensajes :: "MensajeChat list"
  carrito :: "Carrito option"
  contexto :: Contexto

definition agregar_mensaje :: "Conversacion \<Rightarrow> string \<Rightarrow> string \<Rightarrow> Conversacion" where
  "agregar_mensaje conv r c = conv\<lparr>mensajes := mensajes conv @ [\<lparr>role = r, content = c\<rparr>]\<rparr>"

text \<open>
  The side-effect records (\<open>acciones\<close>). Both checkout directives write a record of
  type \<open>checkout\<close>; the flag tells whether it has the \<open>carrito\<close> key, which only the
  \<open>[CHECKOUT:codigo]\<close> directive writes.
\<close>

datatype accion =
    MostrarProducto ProductoDisplay
  | Buscar string nat
  | AgregarCarrito string string real
  | Checkout string string bool
  | VerCarrito

text \<open>
  A row returned by the catalogue tools (MCP toolbox): a dict, or some other JSON
  value (\<open>NoDict\<close>), which the code tests with \<open>isinstance(p, dict)\<close>. Numeric columns are
  kept as the text that \<open>str\<close> gives, \<open>None\<close> when the key is absent.
\<close>

record ProductoRaw =
  ID :: string
  Categoria :: string
  Tipo :: string
  Producto_nombre :: string
  Foto :: string
  Color :: string
  Precio :: "string option"
  Stock :: "string option"
  Descuento :: "string option"
  Precio_final :: "string option"

datatype raw = Dict ProductoRaw | NoDict

text \<open>
  What the engine consumes from outside: the catalogue tools (which catch their own
  exceptions and return lists), the product lookups of the BigQuery service, the random
  draws of \<open>random.choices\<close>, and the conversions of the Python runtime between floats
  and text (\<open>float\<close>, the \<open>.2f\<close> and \<open>.0f\<close> formats, \<open>str\<close>) and the expansion of a
  replacement template by \<open>re.sub\<close>. They are parameters: every theorem below holds for
  all of them. \<open>ejecutar_busqueda\<close> stands for \<open>AIBrain._ejecutar_busqueda\<close>, the catalogue
  search of the legacy directive, of which the parser only uses the returned list.
\<close>

record entorno =
  mcp_is_available :: bool
  mcp_buscar_productos :: "string \<Rightarrow> raw list"
  mcp_productos_economicos :: "int \<Rightarrow> raw list"
  mcp_productos_con_descuento :: "raw list"
  ejecutar_busqueda :: "string \<Rightarrow> Producto list"
  bq_obtener_producto :: "string \<Rightarrow> Producto option"
  bq_buscar_productos :: "string \<Rightarrow> Producto list"
  aleatorio :: "nat \<Rightarrow> nat"
  py_float :: "string \<Rightarrow> real option"
  fmt_2f :: "real \<Rightarrow> string"
  fmt_0f :: "real \<Rightarrow> string"
  str_float :: "real \<Rightarrow> string"
  re_template :: "string \<Rightarrow> string option"

subsection \<open>The directive parser\<close>

text \<open>
  \<open>action_patterns\<close> (lines 34-42): \<open>\[NOMBRE:([^\]]+)\]\<close> for the directives with a
  body, the literal tags for the two others.
\<close>

definition pat_tag :: "string \<Rightarrow> rx" where
  "pat_tag nombre = Seqs [Str (CHR ''['' # nombre @ '':''),
                          Grp 1 (Plus (Sat (\<lambda>c. c \<noteq> CHR '']''))), Chr CHR '']'']"

definition pat_BUSCAR_PRODUCTO :: rx where "pat_BUSCAR_PRODUCTO = pat_tag ''BUSCAR_PRODUCTO''"
definition pat_PRODUCTO :: rx where "pat_PRODUCTO = pat_tag ''PRODUCTO''"
definition pat_AGREGAR_CARRITO :: rx where "pat_AGREGAR_CARRITO = pat_tag ''AGREGAR_CARRITO''"
definition pat_CHECKOUT :: rx where "pat_CHECKOUT = pat_tag ''CHECKOUT''"
definition pat_VER_CARRITO :: rx where "pat_VER_CARRITO = Str ''[VER_CARRITO]''"
definition pat_GENERAR_CHECKOUT :: rx where "pat_GENERAR_CHECKOUT = Str ''[GENERAR_CHECKOUT]''"

text \<open>
  \<open>_generar_codigo_carrito\<close> (lines 64-68): \<open>RST\<close> and eight draws from the uppercase
  letters and the digits; \<open>rnd (k + i)\<close> is the i-th draw after \<open>k\<close> draws were used.
\<close>

definition alfabeto :: string where
  "alfabeto = ''ABCDEFGHIJKLMNOPQRSTUVWXYZ0123456789''"

definition generar_codigo_carrito :: "(nat \<Rightarrow> nat) \<Rightarrow> nat \<Rightarrow> string" where
  "generar_codigo_carrito rnd k = ''RST'' @ map (\<lambda>i. alfabeto ! (rnd (k + i) mod 36)) [0..<8]"

text \<open>
  \<open>Carrito.total\<close> and \<open>Carrito.to_chat_message\<close> (models.py, lines 93-95 and 131-144).
\<close>

definition total_carrito :: "Carrito \<Rightarrow> real" where
  "total_carrito c = sum_list (map subtotal (items c))"

fun lineas_carrito :: "(real \<Rightarrow> string) \<Rightarrow> nat \<Rightarrow> CarritoItem list \<Rightarrow> string" where
  "lineas_carrito f i [] = []"
| "lineas_carrito f i (item # rest) =
     str_nat i @ ''. '' @ producto_nombre item @ nl @
     ''   '' @ str_int (cantidad item) @ '' x S/'' @ f (precio_unitario item) @
     '' = S/'' @ f (subtotal item) @ nl @ lineas_carrito f (Suc i) rest"

definition to_chat_message :: "(real \<Rightarrow> string) \<Rightarrow> Carrito \<Rightarrow> string" where
  "to_chat_message f c =
     (if items c = [] then ''Tu carrito esta vacio.''
      else ''**Tu carrito:**'' @ nl @ nl @ lineas_carrito f 1 (items c) @
           nl @ ''**Total: S/'' @ f (total_carrito c) @ ''**'')"

text \<open>
  \<open>AIBrain._procesar_acciones\<close> (lines 838-983). The local variables of the method
  (\<open>respuesta_procesada\<close>, \<open>productos_display\<close>, \<open>acciones\<close>), the conversation it mutates
  and the number of random draws used so far form the state; each block of the method is
  a function on it, and every pattern is searched in the raw reply \<open>respuesta\<close>.
\<close>

record estado =
  texto :: string
  productos_display :: "ProductoDisplay list"
  acciones :: "accion list"
  conv :: Conversacion
  usados :: nat

text \<open>
  The \<open>[PRODUCTO:id|nombre|precio|url]\<close> block (lines 848-873): a match with fewer than
  three fields is skipped as a whole, replacement included.
\<close>

definition display_de_tag :: "string list \<Rightarrow> error + ProductoDisplay" where
  "display_de_tag parts =
     (let prod_id = strip (parts ! 0);
          nombre = strip (parts ! 1);
          precio_txt = strip (parts ! 2);
          imagen_url = (if length parts > 3 then convertir_drive_url (strip (parts ! 3)) else [])
      in case (if isdigit (replace ''.'' [] precio_txt) then float_digitos precio_txt else Inr 0) of
           Inl e \<Rightarrow> Inl e
         | Inr num \<Rightarrow> Inr \<lparr>pd_id = prod_id, pd_nombre = nombre, pd_precio = ''S/'' @ precio_txt,
                            pd_precio_num = num, pd_imagen = imagen_url,
                            pd_categoria = None, pd_tipo = None, pd_es_upsell = None,
                            pd_descuento = None, pd_precio_original = None,
                            pd_en_presupuesto = None\<rparr>)"

fun fase_productos :: "string list \<Rightarrow> estado \<Rightarrow> error + estado" where
  "fase_productos [] st = Inr st"
| "fase_productos (match_str # rest) st =
     (let parts = split CHR ''|'' match_str in
      if length parts \<ge> 3 then
        (case display_de_tag parts of
           Inl e \<Rightarrow> Inl e
         | Inr d \<Rightarrow> fase_productos rest
             (st\<lparr>productos_display := productos_display st @ [d],
                 texto := replace (''[PRODUCTO:'' @ match_str @ '']'')
                            (nl @ ''**'' @ pd_nombre d @ ''** - S/'' @ strip (parts ! 2)) (texto st),
                 acciones := acciones st @ [MostrarProducto d]\<rparr>))
      else fase_productos rest st)"

text \<open>
  The \<open>[BUSCAR_PRODUCTO:query]\<close> block (lines 875-900): only the first match is read;
  the replacement lists every card displayed so far.
\<close>

definition display_de_producto :: "entorno \<Rightarrow> Producto \<Rightarrow> ProductoDisplay" where
  "display_de_producto env p =
     \<lparr>pd_id = id_prod p, pd_nombre = producto p,
      pd_precio = ''S/'' @ fmt_2f env (precio_final p),
      pd_precio_num = precio_final p,
      pd_imagen = (case foto p of None \<Rightarrow> [] | Some u \<Rightarrow> convertir_drive_url u),
      pd_categoria = None, pd_tipo = None, pd_es_upsell = None,
      pd_descuento = Some (if descuento p \<noteq> 0 then descuento p else 0),
      pd_precio_original = Some (if descuento p \<noteq> 0 then Some (''S/'' @ str_float env (precio p)) else None),
      pd_en_presupuesto = None\<rparr>"

definition fase_buscar :: "entorno \<Rightarrow> string \<Rightarrow> estado \<Rightarrow> estado" where
  "fase_buscar env respuesta st =
     (case search pat_BUSCAR_PRODUCTO respuesta of
        None \<Rightarrow> st
      | Some m \<Rightarrow>
          (let query = strip (rx_group m 1);
               encontrados = ejecutar_busqueda env query;
               st1 = (if encontrados \<noteq> [] then
                        (let pds = productos_display st @ map (display_de_producto env) (take 3 encontrados);
                             productos_texto = join nl (map (\<lambda>p. ''- **'' @ pd_nombre p @ ''** - '' @ pd_precio p) pds)
                         in st\<lparr>productos_display := pds,
                               texto := replace (group0 m) (nl @ productos_texto) (texto st)\<rparr>)
                      else st\<lparr>texto := replace (group0 m)
                               (nl @ ''No encontre productos con esas caracteristicas. Quieres probar con algo diferente?'')
                               (texto st)\<rparr>)
           in st1\<lparr>acciones := acciones st1 @ [Buscar query (length encontrados)]\<rparr>))"

text \<open>
  The \<open>[AGREGAR_CARRITO:id|nombre|precio]\<close> block (lines 902-941). The tag is removed
  before the product is resolved; a resolved product is added once to the cart (created
  if absent) and \<open>ultimo_upsell_id\<close> is popped from the context.
\<close>

definition resolver_producto :: "entorno \<Rightarrow> string \<Rightarrow> string \<Rightarrow> Producto option" where
  "resolver_producto env prod_id nombre =
     (let p1 = (if isdigit prod_id then bq_obtener_producto env prod_id else None)
      in if p1 = None \<and> nombre \<noteq> []
         then (case bq_buscar_productos env nombre of [] \<Rightarrow> p1 | p # _ \<Rightarrow> Some p)
         else p1)"

definition fase_agregar :: "entorno \<Rightarrow> string \<Rightarrow> estado \<Rightarrow> estado" where
  "fase_agregar env respuesta st =
     (case search pat_AGREGAR_CARRITO respuesta of
        None \<Rightarrow> st
      | Some m \<Rightarrow>
          (let parts = split CHR ''|'' (strip (rx_group m 1));
               prod_id = strip (parts ! 0);
               nombre = (if length parts > 1 then strip (parts ! 1) else ''Producto'');
               precio_num = (if length parts > 2
                         then (case py_float env (strip (parts ! 2)) of Some x \<Rightarrow> x | None \<Rightarrow> 0)
                         else 0);
               st1 = st\<lparr>texto := replace (group0 m) [] (texto st)\<rparr>
           in case resolver_producto env prod_id nombre of
                None \<Rightarrow> st1
              | Some p \<Rightarrow>
                  (let c = conv st1;
                       car = (case carrito c of None \<Rightarrow> \<lparr>session_id = conv_session_id c, items = []\<rparr>
                              | Some k \<Rightarrow> k);
                       c' = c\<lparr>carrito := Some (agregar_item car p 1),
                              contexto := (contexto c)\<lparr>ultimo_upsell_id := None\<rparr>\<rparr>
                   in st1\<lparr>conv := c',
                          acciones := acciones st1 @ [AgregarCarrito (id_prod p) (producto p) precio_num]\<rparr>)))"

text \<open>
  The \<open>[CHECKOUT:codigo]\<close> block (lines 943-961). The record is built with
  \<open>conversacion.carrito.to_dict() if conversacion.carrito else None\<close>; \<open>Carrito\<close> defines no
  \<open>to_dict\<close> and pydantic's \<open>BaseModel\<close> has none, so with a cart the call raises
  \<open>AttributeError\<close>.
\<close>

definition fase_checkout :: "entorno \<Rightarrow> string \<Rightarrow> estado \<Rightarrow> error + estado" where
  "fase_checkout env respuesta st =
     (case search pat_CHECKOUT respuesta of
        None \<Rightarrow> Inr st
      | Some m \<Rightarrow>
          (let c0 = strip (rx_group m 1);
               generado = (c0 = ''codigo_random'');
               codigo = (if generado then generar_codigo_carrito (aleatorio env) (usados st) else c0);
               checkout_url = ''https://rosatel.pe/checkout/'' @ codigo;
               st1 = st\<lparr>texto := replace (group0 m) (nl @ nl @ ''Link de pago: '' @ checkout_url) (texto st),
                         usados := (if generado then usados st + 8 else usados st)\<rparr>
           in case carrito (conv st1) of
                Some k \<Rightarrow> Inl AttributeError
              | None \<Rightarrow> Inr (st1\<lparr>acciones := acciones st1 @ [Checkout codigo checkout_url True]\<rparr>)))"

text \<open>
  The two legacy blocks (lines 963-981) use \<open>re.sub\<close> with a literal tag as pattern: a
  replacement of every occurrence, after the expansion of the replacement template.
\<close>

definition re_sub :: "entorno \<Rightarrow> string \<Rightarrow> string \<Rightarrow> string \<Rightarrow> error + string" where
  "re_sub env tag repl s =
     (case re_template env repl of None \<Rightarrow> Inl ReError | Some r \<Rightarrow> Inr (replace tag r s))"

definition fase_ver_carrito :: "entorno \<Rightarrow> string \<Rightarrow> estado \<Rightarrow> error + estado" where
  "fase_ver_carrito env respuesta st =
     (case search pat_VER_CARRITO respuesta of
        None \<Rightarrow> Inr st
      | Some m \<Rightarrow>
          (let carrito_msg = (case carrito (conv st) of
                                Some k \<Rightarrow> to_chat_message (fmt_2f env) k
                              | None \<Rightarrow> ''Tu carrito esta vacio.'')
           in case re_sub env ''[VER_CARRITO]'' (nl @ carrito_msg) (texto st) of
                Inl e \<Rightarrow> Inl e
              | Inr t \<Rightarrow> Inr (st\<lparr>texto := t, acciones := acciones st @ [VerCarrito]\<rparr>)))"

definition fase_generar_checkout :: "entorno \<Rightarrow> string \<Rightarrow> estado \<Rightarrow> error + estado" where
  "fase_generar_checkout env respuesta st =
     (case search pat_GENERAR_CHECKOUT respuesta of
        None \<Rightarrow> Inr st
      | Some m \<Rightarrow>
          (case carrito (conv st) of
             None \<Rightarrow> Inr st
           | Some k \<Rightarrow>
               if items k = [] then Inr st
               else
                 (let codigo = generar_codigo_carrito (aleatorio env) (usados st);
                      checkout_url = ''https://rosatel.pe/checkout/'' @ codigo;
                      checkout_msg = nl @ ''Resumen de tu pedido:'' @ nl @ to_chat_message (fmt_2f env) k @
                                     nl @ nl @ ''Link de pago: '' @ checkout_url @ nl
                  in case re_sub env ''[GENERAR_CHECKOUT]'' checkout_msg (texto st) of
                       Inl e \<Rightarrow> Inl e
                     | Inr t \<Rightarrow> Inr (st\<lparr>texto := t, usados := usados st + 8,
                                         acciones := acciones st @ [Checkout codigo checkout_url False]\<rparr>))))"

text \<open>
  The blocks in the order of the method; an exception ends it.
\<close>

definition bind_err :: "error + 'a \<Rightarrow> ('a \<Rightarrow> error + 'b) \<Rightarrow> error + 'b" where
  "bind_err x f = (case x of Inl e \<Rightarrow> Inl e | Inr v \<Rightarrow> f v)"

definition procesar_acciones ::
  "entorno \<Rightarrow> string \<Rightarrow> Conversacion \<Rightarrow> error + (string \<times> ProductoDisplay list \<times> accion list \<times> Conversacion)" where
  "procesar_acciones env respuesta c =
     bind_err (fase_productos (map (\<lambda>m. rx_group m 1) (findall pat_PRODUCTO respuesta))
                 \<lparr>texto = respuesta, productos_display = [], acciones = [], conv = c, usados = 0\<rparr>)
       (\<lambda>st1. bind_err (fase_checkout env respuesta (fase_agregar env respuesta (fase_buscar env respuesta st1)))
       (\<lambda>st4. bind_err (fase_ver_carrito env respuesta st4)
       (\<lambda>st5. bind_err (fase_generar_checkout env respuesta st5)
       (\<lambda>st6. Inr (strip (texto st6), productos_display st6, acciones st6, conv st6)))))"

subsection \<open>Budget extraction\<close>

text \<open>
  The budget block of \<open>AIBrain.extraer_preferencias\<close> (lines 1302-1326), on the lowercased
  message. The other blocks of that method write the occasion, colour, flower,
  product-type and intent entries and never a budget entry; they are not modelled.
\<close>

definition patrones_precio :: "rx list" where
  "patrones_precio =
    [Seqs [Alts [Str ''menos de'', Str ''hasta'', Str ''maximo'', Str ''max'',
                 Seq (Str ''presupuesto d'') (Opt (Chr CHR ''e''))],
           Star Spc,
           Opt (Seqs [Chr CHR ''s'', Opt (Chr CHR ''/''), Opt (Chr CHR ''.''), Star Spc]),
           Grp 1 (Plus Dig)],
     Seqs [Chr CHR ''s'', Opt (Chr CHR ''/''), Opt (Chr CHR ''.''), Star Spc, Grp 1 (Plus Dig)],
     Seqs [Grp 1 (Plus Dig), Star Spc, Alts [Seq (Str ''sole'') (Opt (Chr CHR ''s'')), Str ''sol'']],
     Seqs [Str ''tengo'', Star Spc, Grp 1 (Plus Dig)],
     Seqs [Str ''gastar'', Star Spc, Opt (Seq (Str ''uno'') (Opt (Chr CHR ''s''))), Star Spc,
           Grp 1 (Plus Dig)]]"

definition pat_rango :: rx where
  "pat_rango = Seqs [Opt (Seq (Str ''entre'') (Star Spc)), Grp 1 (Plus Dig), Star Spc,
                     Alts [Str ''a'', Str ''y'', Str ''-'', Str ''hasta''], Star Spc,
                     Grp 2 (Plus Dig)]"

fun presupuesto_patrones :: "rx list \<Rightarrow> string \<Rightarrow> Contexto \<Rightarrow> Contexto" where
  "presupuesto_patrones [] mensaje_lower ctx = ctx"
| "presupuesto_patrones (patron # rest) mensaje_lower ctx =
     (case search patron mensaje_lower of
        Some m \<Rightarrow>
          (let monto = real (dec_val (rx_group m 1)) in
           if monto \<ge> 30 then ctx\<lparr>presupuesto_max := Some monto\<rparr>
           else presupuesto_patrones rest mensaje_lower ctx)
      | None \<Rightarrow> presupuesto_patrones rest mensaje_lower ctx)"

definition presupuesto_rango :: "string \<Rightarrow> Contexto \<Rightarrow> Contexto" where
  "presupuesto_rango mensaje_lower ctx =
     (case search pat_rango mensaje_lower of
        Some m \<Rightarrow> ctx\<lparr>presupuesto_min := Some (real (dec_val (rx_group m 1))),
                       presupuesto_max := Some (real (dec_val (rx_group m 2)))\<rparr>
      | None \<Rightarrow> ctx)"

definition extraer_presupuesto :: "string \<Rightarrow> Contexto \<Rightarrow> Contexto" where
  "extraer_presupuesto mensaje ctx =
     presupuesto_rango (lower mensaje) (presupuesto_patrones patrones_precio (lower mensaje) ctx)"

subsection \<open>Upsell-acceptance detector\<close>

text \<open>
  \<open>AIBrain._detectar_upselling_response\<close> (lines 416-546) and the dict that a turn
  returns; its \<open>texto\<close> is one bubble or the list of bubbles.
\<close>

datatype texto_respuesta = Texto string | ListaBurbujas "string list"

record Respuesta =
  r_texto :: texto_respuesta
  r_texto_limpio :: "string option"
  r_burbujas :: "string list"
  r_productos :: "ProductoDisplay list"
  r_acciones :: "accion list"
  r_carrito :: "Carrito option"

definition precio_float :: "entorno \<Rightarrow> string option \<Rightarrow> string \<Rightarrow> real option" where
  "precio_float env v defecto =
     py_float env (replace '','' [] (case v of None \<Rightarrow> defecto | Some s \<Rightarrow> s))"

definition tarjeta_de_raw :: "entorno \<Rightarrow> ProductoRaw \<Rightarrow> ProductoDisplay option" where
  "tarjeta_de_raw env g =
     (case precio_float env (Precio_final g) ''0'' of
        None \<Rightarrow> None
      | Some num \<Rightarrow> Some
          \<lparr>pd_id = ID g, pd_nombre = Producto_nombre g,
           pd_precio = ''S/'' @ (case Precio_final g of None \<Rightarrow> [] | Some s \<Rightarrow> s),
           pd_precio_num = num, pd_imagen = convertir_drive_url (Foto g),
           pd_categoria = Some (Categoria g), pd_tipo = Some (Tipo g), pd_es_upsell = None,
           pd_descuento = None, pd_precio_original = None, pd_en_presupuesto = None\<rparr>)"

text \<open>
  The cards are built inside an exception handler: an exception (a record that is not a
  dict, a price that \<open>float\<close> rejects) ends the loop and keeps the cards appended so far.
\<close>

fun tarjetas :: "entorno \<Rightarrow> (ProductoRaw \<Rightarrow> bool) \<Rightarrow> raw list \<Rightarrow> ProductoDisplay list" where
  "tarjetas env incluir [] = []"
| "tarjetas env incluir (NoDict # rest) = []"
| "tarjetas env incluir (Dict g # rest) =
     (if incluir g then
        (case tarjeta_de_raw env g of
           None \<Rightarrow> []
         | Some d \<Rightarrow> d # tarjetas env incluir rest)
      else tarjetas env incluir rest)"

text \<open>The filter loop of the chocolate branch; \<open>None\<close> when a record is not a dict.\<close>

fun filtrar_chocolates :: "string list \<Rightarrow> string list \<Rightarrow> raw list \<Rightarrow> raw list option" where
  "filtrar_chocolates carrito_ids carrito_nombres [] = Some []"
| "filtrar_chocolates carrito_ids carrito_nombres (NoDict # rest) = None"
| "filtrar_chocolates carrito_ids carrito_nombres (Dict c # rest) =
     (case filtrar_chocolates carrito_ids carrito_nombres rest of
        None \<Rightarrow> None
      | Some fs \<Rightarrow>
          if ID c \<notin> set carrito_ids \<and>
             \<not> list_ex (\<lambda>n. n \<noteq> [] \<and> py_in n (lower (Producto_nombre c))) carrito_nombres
          then Some (Dict c # fs) else Some fs)"

definition afirmaciones :: "string list" where
  "afirmaciones = [''si'', [CHR ''s'', CHR 0xC3, CHR 0xAD], ''ok'', ''dale'', ''claro'',
     ''por supuesto'', ''me interesa'', ''perfecto'', ''bueno'', ''va'', ''muestrame'', ''mostrame'']"

fun buscar_oferta :: "MensajeChat list \<Rightarrow> string" where
  "buscar_oferta [] = []"
| "buscar_oferta (msg # rest) =
     (let content_lower = lower (content msg) in
      if role msg = ''assistant'' \<and> py_in ''?'' content_lower \<and>
         list_ex (\<lambda>kw. py_in kw content_lower)
           [''globo'', ''chocolate'', ''peluche'', ''complementar'', ''agregar'']
      then content_lower else buscar_oferta rest)"

definition detectar_upselling_response :: "entorno \<Rightarrow> string \<Rightarrow> Conversacion \<Rightarrow> Respuesta option" where
  "detectar_upselling_response env mensaje c =
     (let mensaje_lower = strip (lower mensaje) in
      if py_in ''carrito'' mensaje_lower \<or> py_in ''agregar'' mensaje_lower then None
      else if \<not> list_ex (\<lambda>afirm. prefix afirm mensaje_lower \<or> mensaje_lower = afirm) afirmaciones
      then None
      else
        (let oferta_encontrada =
               buscar_oferta (rev (drop (length (mensajes c) - 10) (mensajes c)));
             its = (case carrito c of None \<Rightarrow> [] | Some k \<Rightarrow> items k);
             carrito_ids = map producto_id its;
             carrito_nombres = map (\<lambda>i. lower (producto_nombre i)) its
         in if oferta_encontrada = [] then None
            else
              (let (txt, prods) =
                 (if py_in ''globo'' oferta_encontrada then
                    (case mcp_buscar_productos env ''globos'' of
                       [] \<Rightarrow> ([], [])
                     | globos \<Rightarrow> (''Aqui tienes los globos disponibles:'',
                                   tarjetas env (\<lambda>g. ID g \<notin> set carrito_ids) (take 3 globos)))
                  else if py_in ''chocolate'' oferta_encontrada then
                    (case mcp_buscar_productos env ''chocolates'' of
                       [] \<Rightarrow> ([], [])
                     | chocolates \<Rightarrow>
                         (case filtrar_chocolates carrito_ids carrito_nombres chocolates of
                            None \<Rightarrow> ([], [])
                          | Some [] \<Rightarrow> (''Ya tienes chocolates en tu carrito. Algo mas que necesites?'', [])
                          | Some filtrados \<Rightarrow>
                              (''Excelente eleccion! Te muestro los chocolates:'',
                               tarjetas env (\<lambda>g. True) (take 3 filtrados))))
                  else if py_in ''peluche'' oferta_encontrada then
                    (case mcp_buscar_productos env ''peluche'' of
                       [] \<Rightarrow> ([], [])
                     | peluches \<Rightarrow> (''Aqui tienes los peluches disponibles:'',
                                     tarjetas env (\<lambda>g. True) (take 3 peluches)))
                  else ([], []))
               in if prods \<noteq> [] then
                    Some \<lparr>r_texto = Texto txt, r_texto_limpio = Some txt, r_burbujas = [txt],
                          r_productos = prods, r_acciones = [], r_carrito = carrito c\<rparr>
                  else None)))"

subsection \<open>Catalogue excerpt\<close>

text \<open>
  \<open>AIBrain._formatear_resultado_busqueda\<close> (lines 734-778): \<open>float(v or 0)\<close>, the lines
  of one product, and the excerpt.
\<close>

definition float_o_cero :: "entorno \<Rightarrow> string option \<Rightarrow> error + real" where
  "float_o_cero env v =
     (case v of None \<Rightarrow> Inr 0
      | Some s \<Rightarrow> if s = [] then Inr 0
                  else (case py_float env s of None \<Rightarrow> Inl ValueError | Some x \<Rightarrow> Inr x))"

definition lineas_producto :: "entorno \<Rightarrow> ProductoRaw \<Rightarrow> error + string list" where
  "lineas_producto env p =
     (case precio_float env (Precio_final p) ''0'' of
        None \<Rightarrow> Inl ValueError
      | Some pf \<Rightarrow>
     (case precio_float env (Precio p) ''0'' of
        None \<Rightarrow> Inl ValueError
      | Some po \<Rightarrow>
     (case float_o_cero env (Descuento p) of
        Inl e \<Rightarrow> Inl e
      | Inr desc \<Rightarrow>
     (case float_o_cero env (Stock p) of
        Inl e \<Rightarrow> Inl e
      | Inr st \<Rightarrow>
         (let extra = (if Tipo p \<noteq> [] then [Tipo p] else []) @
                      (if Color p \<noteq> [] then [''Color: '' @ Color p] else []) @
                      (if desc > 0 then [''Descuento: antes S/'' @ fmt_0f env po] else [])
          in Inr ([''[PRODUCTO:'' @ ID p @ ''|'' @ strip (Producto_nombre p) @ ''|'' @ fmt_0f env pf @
                     ''|'' @ convertir_drive_url (Foto p) @ '']''] @
                  (if extra \<noteq> [] then [''   ('' @ join '', '' extra @ '')''] else []) @
                  [[]]))))))"

fun lineas_resultados :: "entorno \<Rightarrow> raw list \<Rightarrow> error + string list" where
  "lineas_resultados env [] = Inr []"
| "lineas_resultados env (NoDict # rest) = lineas_resultados env rest"
| "lineas_resultados env (Dict p # rest) =
     (case lineas_producto env p of
        Inl e \<Rightarrow> Inl e
      | Inr ls \<Rightarrow> (case lineas_resultados env rest of Inl e \<Rightarrow> Inl e | Inr ls' \<Rightarrow> Inr (ls @ ls')))"

definition formatear_resultado_busqueda :: "entorno \<Rightarrow> raw list \<Rightarrow> error + string" where
  "formatear_resultado_busqueda env resultados =
     (if resultados = [] then Inr ''No se encontraron productos.''
      else case lineas_resultados env (take 5 resultados) of
             Inl e \<Rightarrow> Inl e
           | Inr ls \<Rightarrow> Inr (join nl ([''CATALOGO DISPONIBLE (copia estos datos exactamente):'', []] @ ls)))"

subsection \<open>Proactive search\<close>

text \<open>
  \<open>AIBrain._buscar_productos_proactivo\<close> (lines 548-732).
\<close>

definition query_parts_de :: "Contexto \<Rightarrow> string list" where
  "query_parts_de ctx =
     (case tipo_producto ctx of None \<Rightarrow> [] | Some v \<Rightarrow> [v]) @
     (case flor_preferida ctx of None \<Rightarrow> [] | Some v \<Rightarrow> [v]) @
     (case ocasion ctx of None \<Rightarrow> [] | Some v \<Rightarrow> [v]) @
     (case color_preferido ctx of None \<Rightarrow> [] | Some v \<Rightarrow> [v])"

definition presupuesto_de :: "Contexto \<Rightarrow> real" where
  "presupuesto_de ctx = (case presupuesto_max ctx of None \<Rightarrow> 500 | Some v \<Rightarrow> v)"

definition en_presupuesto :: "entorno \<Rightarrow> real \<Rightarrow> raw \<Rightarrow> bool" where
  "en_presupuesto env presupuesto p =
     (case p of
        NoDict \<Rightarrow> False
      | Dict r \<Rightarrow> (case precio_float env (Precio_final r) ''0'' of
                     None \<Rightarrow> False
                   | Some v \<Rightarrow> v \<le> presupuesto))"

definition get_precio_safe :: "entorno \<Rightarrow> raw \<Rightarrow> real" where
  "get_precio_safe env x =
     (case x of
        NoDict \<Rightarrow> 9999
      | Dict r \<Rightarrow> (case precio_float env (Precio_final r) ''9999'' of
                     None \<Rightarrow> 9999
                   | Some v \<Rightarrow> v))"

definition es_dict :: "raw \<Rightarrow> bool" where
  "es_dict x = (case x of Dict r \<Rightarrow> True | NoDict \<Rightarrow> False)"

definition filtrar_por_presupuesto :: "entorno \<Rightarrow> real \<Rightarrow> raw list \<Rightarrow> raw list" where
  "filtrar_por_presupuesto env presupuesto productos_principales =
     (let productos_filtrados = filter (en_presupuesto env presupuesto) productos_principales
      in if productos_filtrados = []
         then take 3 (sort_key (get_precio_safe env) (filter es_dict productos_principales))
         else productos_filtrados)"

definition busqueda_principal :: "entorno \<Rightarrow> Contexto \<Rightarrow> string \<Rightarrow> raw list" where
  "busqueda_principal env ctx query =
     (if mcp_is_available env then
        (let p1 = mcp_buscar_productos env query;
             p2 = (if p1 = [] \<and> length (query_parts_de ctx) > 1 then
                     (case ocasion ctx of
                        Some oc \<Rightarrow> mcp_buscar_productos env oc
                      | None \<Rightarrow> (case tipo_producto ctx of
                                   Some t \<Rightarrow> mcp_buscar_productos env t
                                 | None \<Rightarrow> p1))
                   else p1)
         in if p2 = [] then mcp_productos_economicos env 10 else p2)
      else [])"

fun primero_cumple :: "raw list \<Rightarrow> error + raw option" where
  "primero_cumple [] = Inr None"
| "primero_cumple (NoDict # rest) = Inl AttributeError"
| "primero_cumple (Dict g # rest) =
     (if py_in ''cumple'' (lower (Producto_nombre g)) then Inr (Some (Dict g))
      else primero_cumple rest)"

text \<open>
  The discount loop over \<open>descuentos[:2]\<close>: the first record whose category contains the
  occasion, or is contained in it, is appended and the loop breaks; a record that is not
  a dict raises.
\<close>

fun oferta_especial :: "string \<Rightarrow> raw list \<Rightarrow> error + (string \<times> raw) list" where
  "oferta_especial oc [] = Inr []"
| "oferta_especial oc (NoDict # rest) = Inl AttributeError"
| "oferta_especial oc (Dict d # rest) =
     (let cat = lower (Categoria d) in
      if py_in (lower oc) cat \<or> py_in cat (lower oc) then Inr [(''Oferta especial'', Dict d)]
      else oferta_especial oc rest)"

definition primero :: "string \<Rightarrow> raw list \<Rightarrow> (string \<times> raw) list" where
  "primero etiqueta xs = (case xs of [] \<Rightarrow> [] | x # _ \<Rightarrow> [(etiqueta, x)])"

definition complementos_de :: "entorno \<Rightarrow> Contexto \<Rightarrow> string \<Rightarrow> (string \<times> raw) list" where
  "complementos_de env ctx query =
     (let oc = (case ocasion ctx of None \<Rightarrow> [] | Some v \<Rightarrow> v);
          tp = (case tipo_producto ctx of None \<Rightarrow> [] | Some v \<Rightarrow> v);
          c1 = (if list_ex (\<lambda>t. py_in t (lower tp)) [''flor'', ''ramo'', ''arreglo'', ''rosas''] \<or>
                   list_ex (\<lambda>f. py_in f (lower query)) [''rosa'', ''tulipan'', ''girasol'', ''flor'']
                then primero ''Chocolates'' (mcp_buscar_productos env ''chocolates'') @
                     primero ''Peluche'' (mcp_buscar_productos env ''peluche'')
                else if py_in ''peluche'' (lower tp) \<or> py_in ''peluche'' (lower query)
                then primero ''Ramo de rosas'' (mcp_buscar_productos env ''rosas'')
                else []);
          c2 = (if py_in ''cumple'' (lower oc) then
                  (case mcp_buscar_productos env ''globos'' of
                     [] \<Rightarrow> Inr []
                   | g0 # gs \<Rightarrow> (case primero_cumple (g0 # gs) of
                                   Inl e \<Rightarrow> Inl e
                                 | Inr None \<Rightarrow> Inr [(''Globos'', g0)]
                                 | Inr (Some g) \<Rightarrow> Inr [(''Globos'', g)]))
                else Inr [])
      in case c2 of
           Inl e \<Rightarrow> c1
         | Inr gl \<Rightarrow> (case oferta_especial oc (take 2 (mcp_productos_con_descuento env)) of
                        Inl e \<Rightarrow> c1 @ gl
                      | Inr ds \<Rightarrow> c1 @ gl @ ds))"

definition upsell_de :: "entorno \<Rightarrow> raw \<Rightarrow> error + ProductoDisplay" where
  "upsell_de env prod_comp =
     (case prod_comp of
        NoDict \<Rightarrow> Inl AttributeError
      | Dict r \<Rightarrow>
          (case precio_float env (Precio_final r) [] of
             None \<Rightarrow> Inl ValueError
           | Some num \<Rightarrow> Inr
               \<lparr>pd_id = ID r, pd_nombre = Producto_nombre r,
                pd_precio = ''S/'' @ (case Precio_final r of None \<Rightarrow> [] | Some s \<Rightarrow> s),
                pd_precio_num = num, pd_imagen = convertir_drive_url (Foto r),
                pd_categoria = Some (Categoria r), pd_tipo = Some (Tipo r),
                pd_es_upsell = Some True,
                pd_descuento = None, pd_precio_original = None, pd_en_presupuesto = None\<rparr>))"

definition busqueda_explicita :: "string \<Rightarrow> bool" where
  "busqueda_explicita mensaje_lower =
     list_ex (\<lambda>kw. py_in kw mensaje_lower)
       [''muestrame'', ''mostrar'', ''ver opciones'', ''que tienes'', ''opciones'',
        ''quiero ver'', ''ense'' @ [CHR 0xC3, CHR 0xB1] @ ''ame'', ''tienen'']"

definition contexto_suficiente :: "Contexto \<Rightarrow> string \<Rightarrow> bool" where
  "contexto_suficiente ctx mensaje_lower =
     (let tiene_ocasion = (ocasion ctx \<noteq> None);
          tiene_preferencia = (color_preferido ctx \<noteq> None \<or> flor_preferida ctx \<noteq> None \<or>
                               tipo_producto ctx \<noteq> None);
          tiene_presupuesto = (presupuesto_min ctx \<noteq> None \<or> presupuesto_max ctx \<noteq> None);
          tiene_tipo = (tipo_producto ctx \<noteq> None)
      in (tiene_ocasion \<and> tiene_presupuesto) \<or> (tiene_tipo \<and> tiene_presupuesto) \<or>
         (tiene_preferencia \<and> tiene_presupuesto) \<or> busqueda_explicita mensaje_lower)"

definition texto_catalogo :: "string \<Rightarrow> bool \<Rightarrow> string" where
  "texto_catalogo resultado hay_upsell =
     nl @ ''CATALOGO DISPONIBLE:'' @ nl @ resultado @ nl @ ''INSTRUCCIONES:'' @ nl @
     ''- Muestra 2-3 productos del catalogo usando [PRODUCTO:id|nombre|precio|url]'' @ nl @
     ''- NO incluyas productos de complemento/upselling en tu respuesta (se agregan automaticamente)'' @ nl @
     ''- '' @ (if hay_upsell
               then nl @ nl @ ''Al final pregunta: '' @ [CHR 0x27] @ ''Te gustaria agregarlo?'' @ [CHR 0x27] @
                    '' (el producto de upselling ya se muestra como tarjeta)''
               else ''No hay upselling para esta busqueda'') @ nl"

definition buscar_productos_proactivo ::
  "entorno \<Rightarrow> string \<Rightarrow> Conversacion \<Rightarrow> error + (string \<times> Conversacion)" where
  "buscar_productos_proactivo env mensaje c =
     (let ctx = contexto c in
      if \<not> contexto_suficiente ctx (lower mensaje) then Inr ([], c)
      else
        (let query_parts = query_parts_de ctx;
             query = (if query_parts \<noteq> [] then join '' '' query_parts else mensaje);
             productos_principales = busqueda_principal env ctx query
         in if productos_principales = [] then Inr ([], c)
            else
              (case formatear_resultado_busqueda env
                      (take 5 (filtrar_por_presupuesto env (presupuesto_de ctx) productos_principales)) of
                 Inl e \<Rightarrow> Inl e
               | Inr resultado \<Rightarrow>
                   (case complementos_de env ctx query of
                      [] \<Rightarrow> Inr (texto_catalogo resultado False, c)
                    | (nombre_comp, prod_comp) # _ \<Rightarrow>
                        (case upsell_de env prod_comp of
                           Inl e \<Rightarrow> Inl e
                         | Inr up \<Rightarrow>
                             Inr (texto_catalogo resultado True,
                                  c\<lparr>contexto := ctx\<lparr>upsell_producto := Some up,
                                                      ultimo_upsell_id := Some (pd_id up)\<rparr>\<rparr>))))))"

subsection \<open>Fallback search\<close>

text \<open>
  \<open>AIBrain._buscar_productos_fallback\<close> (lines 250-348). The cards are sorted by the
  key \<open>(not en_presupuesto, precio_num)\<close> with Python's stable sort, and the first three
  are returned.
\<close>

fun combinar_sin_duplicados :: "raw list \<Rightarrow> string list \<Rightarrow> raw list \<Rightarrow> raw list" where
  "combinar_sin_duplicados productos_raw ids_vistos [] = productos_raw"
| "combinar_sin_duplicados productos_raw ids_vistos (NoDict # rest) =
     combinar_sin_duplicados productos_raw ids_vistos rest"
| "combinar_sin_duplicados productos_raw ids_vistos (Dict alt # rest) =
     (if ID alt \<notin> set ids_vistos
      then combinar_sin_duplicados (productos_raw @ [Dict alt]) (ids_vistos @ [ID alt]) rest
      else combinar_sin_duplicados productos_raw ids_vistos rest)"

definition ids_de :: "raw list \<Rightarrow> string list" where
  "ids_de ps = concat (map (\<lambda>p. case p of Dict r \<Rightarrow> [ID r] | NoDict \<Rightarrow> []) ps)"

definition candidatos_fallback :: "entorno \<Rightarrow> Contexto \<Rightarrow> string \<Rightarrow> raw list" where
  "candidatos_fallback env ctx query =
     (let p1 = mcp_buscar_productos env query;
          p2 = (if length p1 < 3 then
                  (let alternativas =
                         (case tipo_producto ctx of None \<Rightarrow> [] | Some v \<Rightarrow> mcp_buscar_productos env v) @
                         (case flor_preferida ctx of None \<Rightarrow> [] | Some v \<Rightarrow> mcp_buscar_productos env v) @
                         (case ocasion ctx of None \<Rightarrow> [] | Some v \<Rightarrow> mcp_buscar_productos env v)
                   in combinar_sin_duplicados p1 (ids_de p1) alternativas)
                else p1)
      in if p2 = [] then mcp_productos_economicos env 5 else p2)"

definition tarjeta_fallback :: "entorno \<Rightarrow> real \<Rightarrow> ProductoRaw \<Rightarrow> ProductoDisplay option" where
  "tarjeta_fallback env presupuesto p =
     (case precio_float env (Precio_final p) ''0'' of
        None \<Rightarrow> None
      | Some v \<Rightarrow> Some
          \<lparr>pd_id = ID p, pd_nombre = strip (Producto_nombre p),
           pd_precio = ''S/'' @ fmt_0f env v, pd_precio_num = v,
           pd_imagen = convertir_drive_url (Foto p),
           pd_categoria = Some (Categoria p), pd_tipo = Some (Tipo p), pd_es_upsell = None,
           pd_descuento = None, pd_precio_original = None,
           pd_en_presupuesto = Some (v \<le> presupuesto * 1.2)\<rparr>)"

definition productos_con_precio :: "entorno \<Rightarrow> real \<Rightarrow> raw list \<Rightarrow> ProductoDisplay list" where
  "productos_con_precio env presupuesto productos_raw =
     concat (map (\<lambda>p. case p of
                         NoDict \<Rightarrow> []
                       | Dict r \<Rightarrow> (case tarjeta_fallback env presupuesto r of
                                      None \<Rightarrow> [] | Some d \<Rightarrow> [d]))
                 productos_raw)"

definition clave_fallback :: "ProductoDisplay \<Rightarrow> bool \<times> real" where
  "clave_fallback x = (\<not> (pd_en_presupuesto x = Some True), pd_precio_num x)"

definition ordenar_fallback :: "ProductoDisplay list \<Rightarrow> ProductoDisplay list" where
  "ordenar_fallback ps = take 3 (sort_key clave_fallback ps)"

definition buscar_productos_fallback :: "entorno \<Rightarrow> Conversacion \<Rightarrow> ProductoDisplay list" where
  "buscar_productos_fallback env c =
     (let ctx = contexto c;
          tiene_ocasion = (ocasion ctx \<noteq> None);
          tiene_tipo = (tipo_producto ctx \<noteq> None);
          tiene_presupuesto = (presupuesto_max ctx \<noteq> None);
          tiene_preferencia = (color_preferido ctx \<noteq> None \<or> flor_preferida ctx \<noteq> None)
      in if \<not> tiene_presupuesto then []
         else if \<not> (tiene_ocasion \<or> tiene_tipo \<or> tiene_preferencia) then []
         else
           (let query_parts = query_parts_de ctx;
                query = (if query_parts \<noteq> [] then join '' '' query_parts else ''flores'')
            in ordenar_fallback
                 (productos_con_precio env (presupuesto_de ctx) (candidatos_fallback env ctx query))))"

subsection \<open>Direct search for a new request\<close>

text \<open>
  \<open>AIBrain._detectar_nueva_solicitud\<close> and \<open>AIBrain._buscar_por_solicitud\<close>
  (lines 188-248).
\<close>

definition solicitudes :: "(string \<times> string list) list" where
  "solicitudes =
    [(''chocolate'', [''chocolate'', ''chocolates'', ''ferrero'', ''iberica'', ''bombones'']),
     (''peluche'', [''peluche'', ''peluches'', ''oso'', ''osito'']),
     (''globo'', [''globo'', ''globos'']),
     (''vino'', [''vino'', ''vinos'', ''licor'', ''champagne'', ''espumante'']),
     (''flores'', [''flor'', ''flores'', ''rosas'', ''tulipanes'', ''girasoles'']),
     (''ramo'', [''ramo'', ''ramos'', ''bouquet''])]"

fun primera_solicitud :: "(string \<times> string list) list \<Rightarrow> string \<Rightarrow> string option" where
  "primera_solicitud [] mensaje_lower = None"
| "primera_solicitud ((cat, keywords) # rest) mensaje_lower =
     (if list_ex (\<lambda>kw. py_in kw mensaje_lower) keywords \<and>
         list_ex (\<lambda>p. py_in p mensaje_lower)
           [''tienes'', ''tienen'', ''hay'', ''busco'', ''necesito'', ''muestrame'', ''ver '', ''dame'']
      then Some cat else primera_solicitud rest mensaje_lower)"

definition detectar_nueva_solicitud :: "string \<Rightarrow> string option" where
  "detectar_nueva_solicitud mensaje =
     (let mensaje_lower = lower mensaje in
      if py_in ''carrito'' mensaje_lower \<or> py_in ''agregar'' mensaje_lower then None
      else primera_solicitud solicitudes mensaje_lower)"

text \<open>
  The loop of \<open>_buscar_por_solicitud\<close>; \<open>None\<close> stands for the exception that the
  enclosing exception handler turns into an empty result.
\<close>

fun tarjetas_solicitud :: "entorno \<Rightarrow> string \<Rightarrow> raw list \<Rightarrow> ProductoDisplay list option" where
  "tarjetas_solicitud env ultimo [] = Some []"
| "tarjetas_solicitud env ultimo (NoDict # rest) = tarjetas_solicitud env ultimo rest"
| "tarjetas_solicitud env ultimo (Dict p # rest) =
     (if ID p = ultimo then tarjetas_solicitud env ultimo rest
      else case tarjeta_de_raw env p of
             None \<Rightarrow> None
           | Some d \<Rightarrow> (case tarjetas_solicitud env ultimo rest of
                          None \<Rightarrow> None
                        | Some ds \<Rightarrow> Some (d\<lparr>pd_nombre := strip (pd_nombre d)\<rparr> # ds)))"

definition buscar_por_solicitud :: "entorno \<Rightarrow> string \<Rightarrow> Conversacion \<Rightarrow> ProductoDisplay list" where
  "buscar_por_solicitud env tp c =
     (let productos_raw = mcp_buscar_productos env tp in
      if productos_raw = [] then []
      else
        (let ultimo_upsell = (case ultimo_upsell_id (contexto c) of None \<Rightarrow> [] | Some v \<Rightarrow> v)
         in case tarjetas_solicitud env ultimo_upsell (take 5 productos_raw) of
              None \<Rightarrow> [] | Some ds \<Rightarrow> ds))"

subsection \<open>The turn after the model's reply\<close>

text \<open>
  \<open>AIBrain.procesar_mensaje\<close> from the parser on (lines 127-186): the reconciliation of
  the upsell candidate, the fallback searches when no product is displayed, the split
  into bubbles and the history entry.
\<close>

fun split_str :: "string \<Rightarrow> string \<Rightarrow> string list" where
  "split_str sep [] = [[]]"
| "split_str sep (c # cs) =
     (if prefix sep (c # cs) then [] # split_str sep (drop (length sep - 1) cs)
      else (case split_str sep cs of [] \<Rightarrow> [[c]] | p # ps \<Rightarrow> (c # p) # ps))"

definition reconciliar_upsell ::
  "ProductoDisplay list \<Rightarrow> Conversacion \<Rightarrow> ProductoDisplay list \<times> Conversacion" where
  "reconciliar_upsell productos c =
     (case upsell_producto (contexto c) of
        None \<Rightarrow> (productos, c)
      | Some upsell_prod \<Rightarrow>
          if productos \<noteq> [] then
            (let upsell = upsell_prod\<lparr>pd_es_upsell := Some True\<rparr> in
             (filter (\<lambda>p. pd_id p \<noteq> pd_id upsell) productos @ [upsell],
              c\<lparr>contexto := (contexto c)\<lparr>upsell_producto := None\<rparr>\<rparr>))
          else (productos, c))"

definition productos_o_fallback ::
  "entorno \<Rightarrow> string \<Rightarrow> string \<Rightarrow> ProductoDisplay list \<Rightarrow> Conversacion \<Rightarrow> ProductoDisplay list" where
  "productos_o_fallback env mensaje_usuario respuesta_procesada productos c =
     (if productos = [] then
        (case detectar_nueva_solicitud mensaje_usuario of
           Some nueva_solicitud \<Rightarrow> buscar_por_solicitud env nueva_solicitud c
         | None \<Rightarrow>
             (let resp_lower = lower respuesta_procesada;
                  msg_lower = lower mensaje_usuario;
                  skip_fallback = (py_in ''agregado'' resp_lower \<or> py_in ''finaliza'' resp_lower \<or>
                                   py_in ''carrito'' msg_lower \<or> py_in ''lo quiero'' msg_lower)
              in if \<not> skip_fallback then buscar_productos_fallback env c else productos))
      else productos)"

definition burbujas_de :: "string \<Rightarrow> string list" where
  "burbujas_de respuesta_procesada =
     filter (\<lambda>b. b \<noteq> []) (map strip (split_str ''|NUEVA_BURBUJA|'' respuesta_procesada))"

definition finalizar_turno ::
  "entorno \<Rightarrow> string \<Rightarrow> string \<times> ProductoDisplay list \<times> accion list \<times> Conversacion \<Rightarrow>
   Respuesta \<times> Conversacion" where
  "finalizar_turno env mensaje_usuario parsed =
     (case parsed of (respuesta_procesada, productos0, accs, c0) \<Rightarrow>
        (let (productos1, c1) = reconciliar_upsell productos0 c0;
             productos2 = productos_o_fallback env mensaje_usuario respuesta_procesada productos1 c1;
             burbujas = burbujas_de respuesta_procesada;
             c2 = agregar_mensaje c1 ''assistant'' (join '' '' burbujas)
         in (\<lparr>r_texto = (case burbujas of [b] \<Rightarrow> Texto b | _ \<Rightarrow> ListaBurbujas burbujas),
              r_texto_limpio = None, r_burbujas = burbujas, r_productos = productos2,
              r_acciones = accs, r_carrito = carrito c1\<rparr>, c2)))"

text \<open>
  \<open>procesar_mensaje\<close> from the point where the model's raw reply is known (the reply
  itself comes from the language model, outside the program).
\<close>

definition procesar_respuesta ::
  "entorno \<Rightarrow> string \<Rightarrow> string \<Rightarrow> Conversacion \<Rightarrow> error + (Respuesta \<times> Conversacion)" where
  "procesar_respuesta env mensaje_usuario respuesta_raw c =
     (case procesar_acciones env respuesta_raw c of
        Inl e \<Rightarrow> Inl e
      | Inr parsed \<Rightarrow> Inr (finalizar_turno env mensaje_usuario parsed))"

section \<open>Notions used in the statements\<close>

text \<open>The text of a directive \<open>[NOMBRE:cuerpo]\<close>.\<close>

definition texto_tag :: "string \<Rightarrow> string \<Rightarrow> string" where
  "texto_tag nombre cuerpo = CHR ''['' # nombre @ '':'' @ cuerpo @ '']''"

text \<open>The first result of the tag pattern, computed without the regular-expression engine.\<close>

definition tag_en :: "string \<Rightarrow> string \<Rightarrow> rx_match option" where
  "tag_en nombre s =
     (let cab = CHR ''['' # nombre @ '':'' in
      if prefix cab s then
        (let r = drop (length cab) s;
             cuerpo = takeWhile (\<lambda>c. c \<noteq> CHR '']'') r;
             cola = dropWhile (\<lambda>c. c \<noteq> CHR '']'') r
         in if cuerpo \<noteq> [] \<and> cola \<noteq> []
            then Some \<lparr>group0 = cab @ cuerpo @ '']'', groups = [(1, cuerpo)], resto = tl cola\<rparr>
            else None)
      else None)"

text \<open>A pattern that can only match at an opening bracket.\<close>

definition necesita_corchete :: "rx \<Rightarrow> bool" where
  "necesita_corchete p = (\<forall>s. (s = [] \<or> hd s \<noteq> CHR ''['') \<longrightarrow> rx_match_at p s = None)"

text \<open>
  The kinds of side effect: add-to-cart, legacy search, and the checkout record of the
  \<open>[CHECKOUT:codigo]\<close> directive (the one that carries the \<open>carrito\<close> key).
\<close>

definition es_agregar :: "accion \<Rightarrow> bool" where
  "es_agregar a = (case a of AgregarCarrito i n p \<Rightarrow> True | _ \<Rightarrow> False)"

definition es_buscar :: "accion \<Rightarrow> bool" where
  "es_buscar a = (case a of Buscar q n \<Rightarrow> True | _ \<Rightarrow> False)"

definition es_checkout :: "accion \<Rightarrow> bool" where
  "es_checkout a = (case a of Checkout c u k \<Rightarrow> k | _ \<Rightarrow> False)"

text \<open>\<open>Carrito.total_items\<close>, and the units held by the cart of a conversation.\<close>

definition total_items :: "Carrito \<Rightarrow> int" where
  "total_items k = sum_list (map cantidad (items k))"

definition unidades :: "Conversacion \<Rightarrow> int" where
  "unidades c = (case carrito c of None \<Rightarrow> 0 | Some k \<Rightarrow> total_items k)"

text \<open>
  Replies with one or two directives of one kind and no other bracket:
  \<open>pre [N:b1] mid post\<close> and \<open>pre [N:b1] mid [N:b2] post\<close>.
\<close>

definition cuerpo_simple :: "string \<Rightarrow> bool" where
  "cuerpo_simple b = (b \<noteq> [] \<and> CHR ''['' \<notin> set b \<and> CHR '']'' \<notin> set b)"

definition sin_abrir :: "string \<Rightarrow> bool" where
  "sin_abrir s = (CHR ''['' \<notin> set s)"

definition un_tag :: "string \<Rightarrow> string \<Rightarrow> string \<Rightarrow> string \<Rightarrow> string \<Rightarrow> string" where
  "un_tag n pre b1 mid post = pre @ texto_tag n b1 @ mid @ post"

definition dos_tags :: "string \<Rightarrow> string \<Rightarrow> string \<Rightarrow> string \<Rightarrow> string \<Rightarrow> string \<Rightarrow> string" where
  "dos_tags n pre b1 mid b2 post = pre @ texto_tag n b1 @ mid @ texto_tag n b2 @ post"

text \<open>
  The text that replaces a search directive (when no product card precedes it) and a
  checkout directive (when no code was generated before in the same reply).
\<close>

definition reemplazo_buscar :: "entorno \<Rightarrow> string \<Rightarrow> string" where
  "reemplazo_buscar env cuerpo =
     (let encontrados = ejecutar_busqueda env (strip cuerpo) in
      if encontrados \<noteq> [] then
        nl @ join nl (map (\<lambda>p. ''- **'' @ pd_nombre p @ ''** - '' @ pd_precio p)
                         (map (display_de_producto env) (take 3 encontrados)))
      else nl @ ''No encontre productos con esas caracteristicas. Quieres probar con algo diferente?'')"

definition reemplazo_checkout :: "entorno \<Rightarrow> string \<Rightarrow> string" where
  "reemplazo_checkout env cuerpo =
     nl @ nl @ ''Link de pago: https://rosatel.pe/checkout/'' @
     (if strip cuerpo = ''codigo_random'' then generar_codigo_carrito (aleatorio env) 0
      else strip cuerpo)"

section \<open>Test data\<close>

text \<open>A product of the offline demo catalogue, catalogue rows, and a stub environment.\<close>

definition rosa :: Producto where
  "rosa = \<lparr>id_prod = ''ROSA-001'', categoria = ''Flores'', tipo = ''Ramo'',
     producto = ''Ramo de 12 Rosas Rojas'', foto = None, color = Some ''Rojo'',
     precio = 89, stock = 50, descuento = 10, precio_final = 80.10, descripcion = None\<rparr>"

definition entorno_demo :: entorno where
  "entorno_demo = \<lparr>mcp_is_available = True,
     mcp_buscar_productos = (\<lambda>q. []),
     mcp_productos_economicos = (\<lambda>n. []),
     mcp_productos_con_descuento = [],
     ejecutar_busqueda = (\<lambda>q. []),
     bq_obtener_producto = (\<lambda>i. None),
     bq_buscar_productos = (\<lambda>n. if n = ''Ramo de 12 Rosas Rojas'' then [rosa] else []),
     aleatorio = (\<lambda>i. 7 * i + 3),
     py_float = (\<lambda>s. if isdigit s then Some (real (dec_val s)) else None),
     fmt_2f = (\<lambda>x. str_int (floor x) @ ''.'' @ (let c = nat (floor (x * 100)) mod 100 in (if c < 10 then ''0'' else []) @ str_nat c)),
     fmt_0f = (\<lambda>x. str_int (floor x)),
     str_float = (\<lambda>x. str_int (floor x)),
     re_template = (\<lambda>s. if CHR 0x5C \<in> set s then None else Some s)\<rparr>"

definition conv_demo :: Conversacion where
  "conv_demo = \<lparr>conv_session_id = ''s1'', canal = WIDGET, user_id = None, mensajes = [],
     carrito = Some \<lparr>session_id = ''s1'', items = []\<rparr>, contexto = contexto_vacio\<rparr>"

definition choco :: ProductoRaw where
  "choco = \<lparr>ID = ''CHOC-001'', Categoria = ''Chocolates'', Tipo = ''Chocolates'',
     Producto_nombre = ''Ferrero Rocher x12'', Foto = [], Color = [], Precio = Some ''35'',
     Stock = Some ''10'', Descuento = Some ''0'', Precio_final = Some ''35''\<rparr>"

definition peluche :: ProductoRaw where
  "peluche = \<lparr>ID = ''PEL-001'', Categoria = ''Peluches'', Tipo = ''Peluche'',
     Producto_nombre = ''Oso Hugo'', Foto = [], Color = [], Precio = Some ''79'',
     Stock = Some ''10'', Descuento = Some ''0'', Precio_final = Some ''79''\<rparr>"

definition entorno_catalogo :: entorno where
  "entorno_catalogo = entorno_demo\<lparr>mcp_buscar_productos :=
     (\<lambda>q. if q = ''chocolates'' then [Dict choco] else if q = ''peluche'' then [Dict peluche] else [])\<rparr>"

definition item_de :: "ProductoRaw \<Rightarrow> CarritoItem" where
  "item_de g = CarritoItem_init (ID g) (Producto_nombre g) 1 35"

definition conv_oferta :: "string \<Rightarrow> ProductoRaw \<Rightarrow> Conversacion" where
  "conv_oferta pregunta g = conv_demo\<lparr>
     mensajes := [\<lparr>role = ''assistant'', content = pregunta\<rparr>],
     carrito := Some \<lparr>session_id = ''s1'', items = [item_de g]\<rparr>\<rparr>"

definition tarjeta_choco :: ProductoDisplay where
  "tarjeta_choco = \<lparr>pd_id = ''CHOC-001'', pd_nombre = ''Ferrero Rocher x12'', pd_precio = ''S/35'',
     pd_precio_num = 35, pd_imagen = [], pd_categoria = Some ''Chocolates'',
     pd_tipo = Some ''Chocolates'', pd_es_upsell = Some True, pd_descuento = None,
     pd_precio_original = None, pd_en_presupuesto = None\<rparr>"

definition conv_upsell :: Conversacion where
  "conv_upsell = conv_demo\<lparr>contexto := contexto_vacio\<lparr>upsell_producto := Some tarjeta_choco\<rparr>\<rparr>"

definition ramo :: "string \<Rightarrow> string \<Rightarrow> ProductoRaw" where
  "ramo i p = \<lparr>ID = i, Categoria = ''Flores'', Tipo = ''Ramo'', Producto_nombre = ''Ramo de rosas'',
     Foto = [], Color = ''Rojo'', Precio = Some p, Stock = Some ''5'', Descuento = Some ''0'',
     Precio_final = Some p\<rparr>"

definition ramos :: "raw list" where
  "ramos = [Dict (ramo ''R-050'' ''50''), Dict (ramo ''R-120'' ''120''), Dict (ramo ''R-200'' ''200'')]"

definition entorno_rosas :: entorno where
  "entorno_rosas = entorno_demo\<lparr>mcp_buscar_productos :=
     (\<lambda>q. if q = ''chocolates'' then [Dict choco] else if q = ''peluche'' then [Dict peluche]
          else if q = ''rosas'' then ramos else [])\<rparr>"

definition conv_rosas :: "real \<Rightarrow> Conversacion" where
  "conv_rosas b = conv_demo\<lparr>contexto := contexto_vacio\<lparr>flor_preferida := Some ''rosas'',
     presupuesto_max := Some b\<rparr>\<rparr>"

section \<open>Verification\<close>

subsection \<open>The cart (C1)\<close>

lemma actualizar_existente_None:
  "actualizar_existente its pid n = None \<longleftrightarrow> pid \<notin> producto_id ` set its"
  by (induction its) auto

lemma filter_actualizar_existente_otro:
  "actualizar_existente its pid n = Some its' \<Longrightarrow> q \<noteq> pid \<Longrightarrow>
   filter (\<lambda>i. producto_id i = q) its' = filter (\<lambda>i. producto_id i = q) its"
  by (induction its arbitrary: its') (auto split: if_splits)

lemma filter_actualizar_existente_mismo:
  "filter (\<lambda>i. producto_id i = pid) its = [it] \<Longrightarrow>
   \<exists>its'. actualizar_existente its pid n = Some its' \<and>
     filter (\<lambda>i. producto_id i = pid) its' =
       [it\<lparr>cantidad := cantidad it + n,
           subtotal := of_int (cantidad it + n) * precio_unitario it\<rparr>]"
proof (induction its)
  case Nil
  then show ?case by simp
next
  case (Cons a its)
  show ?case
  proof (cases "producto_id a = pid")
    case True
    with Cons.prems have "a = it" and "filter (\<lambda>i. producto_id i = pid) its = []" by auto
    with True show ?thesis by simp
  next
    case False
    with Cons show ?thesis by auto
  qed
qed

lemma items_de_agregar_nuevo:
  "pid \<notin> producto_id ` set (items c) \<Longrightarrow> id_prod p = pid \<Longrightarrow>
   items_de pid (agregar_item c p n) = [CarritoItem_init pid (producto p) n (precio_final p)]"
  using actualizar_existente_None [of "items c" pid n]
  by (force simp: items_de_def agregar_item_def CarritoItem_init_def filter_empty_conv)

lemma items_de_agregar_existente:
  "items_de pid c = [it] \<Longrightarrow> id_prod p = pid \<Longrightarrow>
   items_de pid (agregar_item c p n) =
     [it\<lparr>cantidad := cantidad it + n,
         subtotal := of_int (cantidad it + n) * precio_unitario it\<rparr>]"
  using filter_actualizar_existente_mismo [of pid "items c" it n]
  by (auto simp: items_de_def agregar_item_def)

lemma items_de_agregar_items_existente:
  "items_de pid c = [it] \<Longrightarrow> \<forall>x \<in> set calls. id_prod (fst x) = pid \<Longrightarrow>
   subtotal it = of_int (cantidad it) * precio_unitario it \<Longrightarrow>
   items_de pid (agregar_items c calls) =
     [it\<lparr>cantidad := cantidad it + sum_list (map snd calls),
         subtotal := of_int (cantidad it + sum_list (map snd calls)) * precio_unitario it\<rparr>]"
proof (induction calls arbitrary: c it)
  case Nil
  then show ?case by (simp add: agregar_items_def)
next
  case (Cons x calls)
  obtain p n where x: "x = (p, n)" by (cases x)
  let ?it = "it\<lparr>cantidad := cantidad it + n,
         subtotal := of_int (cantidad it + n) * precio_unitario it\<rparr>"
  have 1: "items_de pid (agregar_item c p n) = [?it]"
    using Cons.prems x by (intro items_de_agregar_existente) auto
  have "items_de pid (agregar_items (agregar_item c p n) calls) =
     [?it\<lparr>cantidad := cantidad ?it + sum_list (map snd calls),
         subtotal := of_int (cantidad ?it + sum_list (map snd calls)) * precio_unitario ?it\<rparr>]"
    using Cons.prems by (intro Cons.IH [OF 1]) auto
  then show ?case by (simp add: agregar_items_def x add.assoc)
qed

text \<open>
  Claim C1. For every sequence of \<open>agregar_item\<close> calls with one product id \<open>pid\<close>,
  on a cart that does not hold \<open>pid\<close> yet, after each call (every non-empty prefix
  \<open>take k calls\<close>) the cart holds exactly one item for \<open>pid\<close>; its \<open>cantidad\<close> is the
  sum of the quantities added so far, its unit price and name are the snapshot of the
  first call, and its \<open>subtotal\<close> is \<open>cantidad\<close> times \<open>precio_unitario\<close>.
\<close>

theorem agregar_item_mismo_id:
  assumes "\<forall>x \<in> set calls. id_prod (fst x) = pid"
    and "pid \<notin> producto_id ` set (items c0)"
    and "0 < k" and "k \<le> length calls"
  shows "items_de pid (agregar_items c0 (take k calls)) =
     [\<lparr>producto_id = pid,
       producto_nombre = producto (fst (hd calls)),
       cantidad = sum_list (map snd (take k calls)),
       precio_unitario = precio_final (fst (hd calls)),
       subtotal = of_int (sum_list (map snd (take k calls))) * precio_final (fst (hd calls))\<rparr>]"
proof -
  from assms obtain p n rest where calls: "calls = (p, n) # rest" by (cases calls) auto
  from assms obtain j where k: "k = Suc j" by (cases k) auto
  let ?it = "CarritoItem_init pid (producto p) n (precio_final p)"
  have idp: "id_prod p = pid" using assms(1) calls by simp
  have 1: "items_de pid (agregar_item c0 p n) = [?it]"
    using assms(2) idp by (rule items_de_agregar_nuevo)
  have 2: "\<forall>x \<in> set (take j rest). id_prod (fst x) = pid"
    using assms(1) calls by (auto dest: in_set_takeD)
  have "items_de pid (agregar_items (agregar_item c0 p n) (take j rest)) =
     [?it\<lparr>cantidad := cantidad ?it + sum_list (map snd (take j rest)),
         subtotal := of_int (cantidad ?it + sum_list (map snd (take j rest))) * precio_unitario ?it\<rparr>]"
    by (rule items_de_agregar_items_existente [OF 1 2]) (simp add: CarritoItem_init_def)
  then show ?thesis
    by (simp add: calls k agregar_items_def CarritoItem_init_def)
qed

theorem agregar_item_mismo_id_witness:
  "items_de ''ROSA-001'' (agregar_items \<lparr>session_id = ''s'', items = []\<rparr> (take 2 [(rosa, 1), (rosa, 2), (rosa, 4)])) =
     [\<lparr>producto_id = ''ROSA-001'', producto_nombre = ''Ramo de 12 Rosas Rojas'',
       cantidad = 3, precio_unitario = 80.10, subtotal = 3 * 80.10\<rparr>]"
  using agregar_item_mismo_id [of "[(rosa, 1), (rosa, 2), (rosa, 4)]" "''ROSA-001''" "\<lparr>session_id = ''s'', items = []\<rparr>" 2]
  by (simp add: rosa_def)

subsection \<open>The directive parser: what it leaves untouched\<close>

lemma bind_err_Inr:
  "bind_err x f = Inr y \<longleftrightarrow> (\<exists>v. x = Inr v \<and> f v = Inr y)"
  by (cases x) (auto simp: bind_err_def)

lemma fase_productos_conv:
  "fase_productos ms st = Inr st' \<Longrightarrow> conv st' = conv st"
proof (induction ms arbitrary: st)
  case Nil
  then show ?case by simp
next
  case (Cons m ms)
  show ?case
  proof (cases "length (split CHR ''|'' m) \<ge> 3")
    case True
    with Cons.prems obtain d where
      "fase_productos ms
         (st\<lparr>productos_display := productos_display st @ [d],
             texto := replace (''[PRODUCTO:'' @ m @ '']'')
                        (nl @ ''**'' @ pd_nombre d @ ''** - S/'' @ strip (split CHR ''|'' m ! 2)) (texto st),
             acciones := acciones st @ [MostrarProducto d]\<rparr>) = Inr st'"
      by (auto simp: Let_def split: sum.splits)
    from Cons.IH [OF this] show ?thesis by simp
  next
    case False
    with Cons.prems have "fase_productos ms st = Inr st'" by (simp add: Let_def)
    from Cons.IH [OF this] show ?thesis .
  qed
qed

lemma fase_buscar_conv: "conv (fase_buscar env r st) = conv st"
  by (simp add: fase_buscar_def Let_def split: option.splits)

lemma fase_agregar_upsell:
  "upsell_producto (contexto (conv (fase_agregar env r st))) = upsell_producto (contexto (conv st))"
  by (simp add: fase_agregar_def Let_def split: option.splits)

lemma fase_checkout_conv: "fase_checkout env r st = Inr st' \<Longrightarrow> conv st' = conv st"
  by (auto simp: fase_checkout_def Let_def split: option.splits)

lemma fase_ver_carrito_conv: "fase_ver_carrito env r st = Inr st' \<Longrightarrow> conv st' = conv st"
  by (auto simp: fase_ver_carrito_def Let_def split: option.splits sum.splits)

lemma fase_generar_checkout_conv: "fase_generar_checkout env r st = Inr st' \<Longrightarrow> conv st' = conv st"
  by (auto simp: fase_generar_checkout_def Let_def split: option.splits sum.splits if_splits)

lemma procesar_acciones_upsell:
  assumes "procesar_acciones env r c = Inr (txt, prods, accs, c1)"
  shows "upsell_producto (contexto c1) = upsell_producto (contexto c)"
proof -
  from assms obtain st1 st4 st5 st6 where
    1: "fase_productos (map (\<lambda>m. rx_group m 1) (findall pat_PRODUCTO r))
          \<lparr>texto = r, productos_display = [], acciones = [], conv = c, usados = 0\<rparr> = Inr st1"
    and 4: "fase_checkout env r (fase_agregar env r (fase_buscar env r st1)) = Inr st4"
    and 5: "fase_ver_carrito env r st4 = Inr st5"
    and 6: "fase_generar_checkout env r st5 = Inr st6"
    and c1: "c1 = conv st6"
    unfolding procesar_acciones_def bind_err_Inr by auto
  have "conv st1 = c" using fase_productos_conv [OF 1] by simp
  moreover have "conv st4 = conv (fase_agregar env r (fase_buscar env r st1))"
    by (rule fase_checkout_conv [OF 4])
  moreover have "conv st5 = conv st4" by (rule fase_ver_carrito_conv [OF 5])
  moreover have "conv st6 = conv st5" by (rule fase_generar_checkout_conv [OF 6])
  ultimately show ?thesis
    using c1 fase_agregar_upsell [of env r "fase_buscar env r st1"] fase_buscar_conv [of env r st1]
    by simp
qed

subsection \<open>Upsell reconciliation (C2, C10)\<close>

text \<open>
  Claim C2. When the parser returns a non-empty display list \<open>prods\<close> and the context
  holds a pending upsell candidate \<open>u\<close>, the product list returned for the turn is
  \<open>prods\<close> without the cards that carry \<open>u\<close>'s id, followed by \<open>u\<close> flagged as an upsell
  card: the id occurs exactly once, in last position, and the candidate is gone from the
  context of the conversation that the turn leaves behind.
\<close>

theorem upsell_una_vez_al_final:
  assumes "procesar_acciones env respuesta_raw c = Inr (txt, prods, accs, c1)"
    and "prods \<noteq> []"
    and "upsell_producto (contexto c) = Some u"
  shows "\<exists>resp c2. procesar_respuesta env mensaje respuesta_raw c = Inr (resp, c2) \<and>
           r_productos resp = filter (\<lambda>p. pd_id p \<noteq> pd_id u) prods @ [u\<lparr>pd_es_upsell := Some True\<rparr>] \<and>
           length (filter (\<lambda>p. pd_id p = pd_id u) (r_productos resp)) = 1 \<and>
           last (r_productos resp) = u\<lparr>pd_es_upsell := Some True\<rparr> \<and>
           pd_id (last (r_productos resp)) = pd_id u \<and>
           pd_es_upsell (last (r_productos resp)) = Some True \<and>
           upsell_producto (contexto c2) = None"
proof -
  have u1: "upsell_producto (contexto c1) = Some u"
    using procesar_acciones_upsell [OF assms(1)] assms(3) by simp
  have rec: "reconciliar_upsell prods c1 =
      (filter (\<lambda>p. pd_id p \<noteq> pd_id u) prods @ [u\<lparr>pd_es_upsell := Some True\<rparr>],
       c1\<lparr>contexto := (contexto c1)\<lparr>upsell_producto := None\<rparr>\<rparr>)"
    using u1 assms(2) by (simp add: reconciliar_upsell_def)
  have cnt: "filter (\<lambda>p. pd_id p = pd_id u) (filter (\<lambda>p. pd_id p \<noteq> pd_id u) prods) = []"
    by (simp add: filter_empty_conv)
  show ?thesis
    using assms(1) rec cnt
    by (simp add: procesar_respuesta_def finalizar_turno_def productos_o_fallback_def
        agregar_mensaje_def Let_def)
qed

theorem upsell_una_vez_al_final_witness:
  "\<exists>resp c2. procesar_respuesta entorno_demo ''hola''
       ''[PRODUCTO:CHOC-001|Ferrero|35] [PRODUCTO:1|Rosa|50]'' conv_upsell = Inr (resp, c2) \<and>
     map pd_id (r_productos resp) = [''1'', ''CHOC-001''] \<and>
     pd_es_upsell (last (r_productos resp)) = Some True \<and>
     upsell_producto (contexto c2) = None"
proof -
  let ?r = "''[PRODUCTO:CHOC-001|Ferrero|35] [PRODUCTO:1|Rosa|50]''"
  have "\<not> isl (procesar_acciones entorno_demo ?r conv_upsell)" by code_simp
  then obtain tx prods accs c1 where
    p: "procesar_acciones entorno_demo ?r conv_upsell = Inr (tx, prods, accs, c1)"
    by (cases "procesar_acciones entorno_demo ?r conv_upsell") auto
  have "map pd_id (fst (snd (projr (procesar_acciones entorno_demo ?r conv_upsell)))) =
      [''CHOC-001'', ''1'']" by code_simp
  then have ids: "map pd_id prods = [''CHOC-001'', ''1'']" by (simp add: p)
  then have ne: "prods \<noteq> []" by auto
  have u: "upsell_producto (contexto conv_upsell) = Some tarjeta_choco"
    by (simp add: conv_upsell_def conv_demo_def contexto_vacio_def)
  have f: "map pd_id (filter (\<lambda>p. pd_id p \<noteq> ''CHOC-001'') prods) =
      filter (\<lambda>i. i \<noteq> ''CHOC-001'') (map pd_id prods)"
    by (simp add: filter_map comp_def)
  from upsell_una_vez_al_final [OF p ne u, of "''hola''"] f ids
  show ?thesis by (auto simp: tarjeta_choco_def)
qed

lemma reconciliar_upsell_vacio: "reconciliar_upsell [] c = ([], c)"
  by (simp add: reconciliar_upsell_def split: option.splits)

text \<open>
  Claim C10. When the parser returns an empty display list, the turn completes and the
  \<open>upsell_producto\<close> entry of the context is the one the conversation had when the reply
  arrived: neither consumed nor modified (the whole context is the one the parser left).
\<close>

theorem sin_productos_upsell_intacto:
  assumes "procesar_acciones env respuesta_raw c = Inr (txt, [], accs, c1)"
  shows "\<exists>resp c2. procesar_respuesta env mensaje respuesta_raw c = Inr (resp, c2) \<and>
           upsell_producto (contexto c2) = upsell_producto (contexto c) \<and>
           contexto c2 = contexto c1"
  using assms procesar_acciones_upsell [OF assms]
  by (simp add: procesar_respuesta_def finalizar_turno_def reconciliar_upsell_vacio
        agregar_mensaje_def Let_def)

theorem sin_productos_upsell_intacto_witness:
  "\<exists>resp c2. procesar_respuesta entorno_demo ''gracias'' ''De nada, un gusto.'' conv_upsell = Inr (resp, c2) \<and>
     upsell_producto (contexto c2) = Some tarjeta_choco"
proof -
  have p: "procesar_acciones entorno_demo ''De nada, un gusto.'' conv_upsell =
      Inr (''De nada, un gusto.'', [], [], conv_upsell)" by code_simp
  have u: "upsell_producto (contexto conv_upsell) = Some tarjeta_choco"
    by (simp add: conv_upsell_def conv_demo_def contexto_vacio_def)
  from sin_productos_upsell_intacto [OF p, of "''gracias''"] u show ?thesis by auto
qed

subsection \<open>Proactive search: repeated calls (C6)\<close>

lemma proactivo_lee:
  "contexto_suficiente (ctx\<lparr>upsell_producto := x, ultimo_upsell_id := y\<rparr>) m = contexto_suficiente ctx m"
  "query_parts_de (ctx\<lparr>upsell_producto := x, ultimo_upsell_id := y\<rparr>) = query_parts_de ctx"
  "presupuesto_de (ctx\<lparr>upsell_producto := x, ultimo_upsell_id := y\<rparr>) = presupuesto_de ctx"
  "busqueda_principal env (ctx\<lparr>upsell_producto := x, ultimo_upsell_id := y\<rparr>) q = busqueda_principal env ctx q"
  "complementos_de env (ctx\<lparr>upsell_producto := x, ultimo_upsell_id := y\<rparr>) q = complementos_de env ctx q"
  by (simp_all add: contexto_suficiente_def query_parts_de_def presupuesto_de_def
      busqueda_principal_def complementos_de_def Let_def cong: option.case_cong if_cong)

text \<open>
  Claim C6. With a fixed catalogue backend (the environment), a call of the proactive
  search that returns an excerpt and leaves the conversation \<open>c'\<close> is repeated unchanged by
  a second call on \<open>c'\<close>: the same excerpt, and the same conversation, hence the same upsell
  candidate in its context. (A call on the very same conversation gives the same result
  because the model is a function of the environment, the message and the conversation.)
\<close>

theorem proactivo_idempotente:
  assumes "buscar_productos_proactivo env mensaje c = Inr (excerpt, c')"
  shows "buscar_productos_proactivo env mensaje c' = Inr (excerpt, c')"
proof -
  have "c' = c \<or> (\<exists>up. c' = c\<lparr>contexto := (contexto c)\<lparr>upsell_producto := Some up,
                                     ultimo_upsell_id := Some (pd_id up)\<rparr>\<rparr>)"
    using assms
    by (auto simp: buscar_productos_proactivo_def Let_def
        split: if_splits sum.splits list.splits prod.splits)
  then show ?thesis
  proof
    assume "c' = c"
    with assms show ?thesis by simp
  next
    assume "\<exists>up. c' = c\<lparr>contexto := (contexto c)\<lparr>upsell_producto := Some up,
                                     ultimo_upsell_id := Some (pd_id up)\<rparr>\<rparr>"
    then obtain up where c': "c' = c\<lparr>contexto := (contexto c)\<lparr>upsell_producto := Some up,
                                     ultimo_upsell_id := Some (pd_id up)\<rparr>\<rparr>" by blast
    show ?thesis
      using assms unfolding c'
      by (auto simp: buscar_productos_proactivo_def Let_def proactivo_lee
          split: if_splits sum.splits list.splits prod.splits)
  qed
qed

theorem proactivo_idempotente_witness:
  "\<exists>excerpt c'. buscar_productos_proactivo entorno_rosas ''hola'' (conv_rosas 100) = Inr (excerpt, c') \<and>
     buscar_productos_proactivo entorno_rosas ''hola'' c' = Inr (excerpt, c') \<and>
     map_option pd_id (upsell_producto (contexto c')) = Some ''CHOC-001''"
proof -
  let ?x = "buscar_productos_proactivo entorno_rosas ''hola'' (conv_rosas 100)"
  have "\<not> isl ?x" by code_simp
  then obtain excerpt c' where p: "?x = Inr (excerpt, c')" by (cases ?x) auto
  have "map_option pd_id (upsell_producto (contexto (snd (projr ?x)))) = Some ''CHOC-001''"
    by code_simp
  then have "map_option pd_id (upsell_producto (contexto c')) = Some ''CHOC-001''" by (simp add: p)
  with p proactivo_idempotente [OF p] show ?thesis by blast
qed

subsection \<open>Malformed directives (C3)\<close>


lemma fase_productos_omite_incompletos:
  "fase_productos ms st = fase_productos (filter (\<lambda>m. 3 \<le> length (split CHR ''|'' m)) ms) st"
  by (induction ms arbitrary: st) (simp_all add: Let_def split: sum.splits)




subsection \<open>Budget filtering (C5)\<close>



lemma tarjeta_fallback_flag:
  "tarjeta_fallback env b p = Some d \<Longrightarrow> pd_en_presupuesto d = Some (pd_precio_num d \<le> b * 1.2)"
  by (auto simp: tarjeta_fallback_def split: option.splits)


text \<open>
  With a budget max and one of the occasion, product-type, colour or flower entries in
  the context, the fallback search is the ordering step applied to the priced cards of
  its candidates.
\<close>

lemma buscar_productos_fallback_orden:
  assumes "presupuesto_max (contexto c) = Some b"
    and "ocasion (contexto c) \<noteq> None \<or> tipo_producto (contexto c) \<noteq> None \<or>
         color_preferido (contexto c) \<noteq> None \<or> flor_preferida (contexto c) \<noteq> None"
  shows "buscar_productos_fallback env c =
           ordenar_fallback (productos_con_precio env b
             (candidatos_fallback env (contexto c) (join '' '' (query_parts_de (contexto c)))))"
proof -
  have "query_parts_de (contexto c) \<noteq> []"
    using assms(2) by (auto simp: query_parts_de_def split: option.splits)
  then show ?thesis
    using assms by (auto simp: buscar_productos_fallback_def presupuesto_de_def Let_def)
qed




subsection \<open>Evaluations at concrete inputs (C4, C7, C8)\<close>

text \<open>
  The generated code has the shape \<open>RST\<close> plus eight characters of the alphabet, and a
  conversation without a cart gets the checkout record with the URL built from the code.
\<close>

lemma generar_codigo_carrito_formato:
  "\<exists>s. generar_codigo_carrito rnd k = ''RST'' @ s \<and> length s = 8 \<and> set s \<subseteq> set alfabeto"
proof -
  let ?s = "map (\<lambda>i. alfabeto ! (rnd (k + i) mod 36)) [0..<8]"
  have len: "length alfabeto = 36" by (simp add: alfabeto_def)
  have "set ?s \<subseteq> set alfabeto"
  proof
    fix x assume "x \<in> set ?s"
    then obtain i where "x = alfabeto ! (rnd (k + i) mod 36)" by auto
    moreover have "rnd (k + i) mod 36 < length alfabeto" by (simp add: len)
    ultimately show "x \<in> set alfabeto" by (simp only: nth_mem)
  qed
  moreover have "length ?s = 8" by simp
  ultimately show ?thesis unfolding generar_codigo_carrito_def by blast
qed

lemma checkout_sin_carrito:
  assumes "carrito c = None"
  shows "\<exists>t. procesar_acciones env ''[CHECKOUT:codigo_random]'' c =
           Inr (t, [],
                [Checkout (generar_codigo_carrito (aleatorio env) 0)
                   (''https://rosatel.pe/checkout/'' @ generar_codigo_carrito (aleatorio env) 0) True],
                c)"
proof -
  let ?r = "''[CHECKOUT:codigo_random]''"
  have 1: "findall pat_PRODUCTO ?r = []" by code_simp
  have 2: "search pat_BUSCAR_PRODUCTO ?r = None" by code_simp
  have 3: "search pat_AGREGAR_CARRITO ?r = None" by code_simp
  have 4: "search pat_CHECKOUT ?r =
      Some \<lparr>group0 = ?r, groups = [(1, ''codigo_random'')], resto = []\<rparr>" by code_simp
  have 5: "search pat_VER_CARRITO ?r = None" by code_simp
  have 6: "search pat_GENERAR_CHECKOUT ?r = None" by code_simp
  have 7: "strip ''codigo_random'' = ''codigo_random''" by code_simp
  have b: "fase_buscar env ?r st = st" for st
    unfolding fase_buscar_def 2 by simp
  have a: "fase_agregar env ?r st = st" for st
    unfolding fase_agregar_def 3 by simp
  have v: "fase_ver_carrito env ?r st = Inr st" for st
    unfolding fase_ver_carrito_def 5 by simp
  have g: "fase_generar_checkout env ?r st = Inr st" for st
    unfolding fase_generar_checkout_def 6 by simp
  have k: "fase_checkout env ?r \<lparr>texto = ?r, productos_display = [], acciones = [], conv = c, usados = 0\<rparr> =
      Inr \<lparr>texto = replace ?r (nl @ nl @ ''Link de pago: '' @ ''https://rosatel.pe/checkout/'' @
                              generar_codigo_carrito (aleatorio env) 0) ?r,
           productos_display = [],
           acciones = [Checkout (generar_codigo_carrito (aleatorio env) 0)
                   (''https://rosatel.pe/checkout/'' @ generar_codigo_carrito (aleatorio env) 0) True],
           conv = c, usados = 8\<rparr>"
    unfolding fase_checkout_def 4
    by (simp add: rx_group_def 7 assms Let_def del: replace.simps)
  show ?thesis
    unfolding procesar_acciones_def 1 list.map fase_productos.simps bind_err_def sum.case b a k v g
    by simp
qed

text \<open>
  Claim C8. At the reply \<open>[CHECKOUT:codigo_random]\<close> and a conversation that owns a cart (as
  every conversation created by the session manager does), the parser raises
  \<open>AttributeError\<close>: no checkout side effect is recorded.
\<close>

theorem checkout_con_carrito_falla:
  "procesar_acciones entorno_demo ''[CHECKOUT:codigo_random]'' conv_demo = Inl AttributeError"
  by code_simp

text \<open>
  The loop over the single-amount patterns never writes \<open>presupuesto_min\<close> and writes
  \<open>presupuesto_max\<close> only with an amount of at least 30; the range pattern writes both
  entries, with no test.
\<close>

lemma presupuesto_patrones_umbral:
  "presupuesto_min (presupuesto_patrones ps m ctx) = presupuesto_min ctx \<and>
   (presupuesto_max (presupuesto_patrones ps m ctx) = presupuesto_max ctx \<or>
    (\<exists>v. presupuesto_max (presupuesto_patrones ps m ctx) = Some v \<and> 30 \<le> v))"
  by (induction ps) (auto simp: Let_def split: option.splits)

lemma presupuesto_rango_ambos:
  "search pat_rango m = Some x \<Longrightarrow>
   presupuesto_min (presupuesto_rango m ctx) = Some (real (dec_val (rx_group x 1))) \<and>
   presupuesto_max (presupuesto_rango m ctx) = Some (real (dec_val (rx_group x 2)))"
  by (simp add: presupuesto_rango_def)

text \<open>
  Claim C4. At the message \<open>quiero 6 a 12 rosas\<close> the range pattern commits
  \<open>presupuesto_min = 6\<close> and \<open>presupuesto_max = 12\<close>, both below the threshold of 30.
\<close>

theorem rango_sin_umbral:
  "extraer_presupuesto ''quiero 6 a 12 rosas'' contexto_vacio =
     contexto_vacio\<lparr>presupuesto_min := Some 6, presupuesto_max := Some 12\<rparr>"
  by code_simp

text \<open>
  Claim C7. At the message \<open>si\<close>, after the assistant offered chocolates, with the only
  chocolate of the catalogue already in the cart, the detector returns nothing.
\<close>

theorem chocolates_en_carrito_sin_respuesta:
  "detectar_upselling_response entorno_catalogo ''si''
     (conv_oferta ''Te gustaria agregar chocolates?'' choco) = None"
  by code_simp

subsection \<open>The tag patterns without the engine\<close>

lemma rx_go_Chr:
  "rx_go (Chr c) (s, g) = (case s of [] \<Rightarrow> [] | x # xs \<Rightarrow> if x = c then [(xs, g)] else [])"
  by (simp add: Chr_def)

lemma rx_go_Str:
  "rx_go (Str s) (inp, g) = (if prefix s inp then [(drop (length s) inp, g)] else [])"
proof (induction s arbitrary: inp)
  case Nil
  then show ?case by (simp add: Str_def)
next
  case (Cons c s)
  have "Str (c # s) = Seq (Chr c) (Str s)" by (simp add: Str_def)
  with Cons show ?case by (cases inp) (auto simp: rx_go_Chr)
qed

lemma rx_go_Star_Sat_Nil: "rx_go (Star (Sat p)) ([], g) = [([], g)]"
  by simp

lemma rx_go_Star_Sat_Cons:
  "rx_go (Star (Sat p)) (x # xs, g) =
     (if p x then rx_go (Star (Sat p)) (xs, g) @ [(x # xs, g)] else [(x # xs, g)])"
  by simp

lemma rx_go_Plus_Sat_Cons:
  "rx_go (Seq (Sat p) (Star (Sat p))) (x # xs, g) =
     (if p x then rx_go (Star (Sat p)) (xs, g) else [])"
  by (simp del: rx_go.simps(5))

lemma concat_map_Star_Sat:
  assumes "\<And>s' g'. s' = [] \<or> p (hd s') \<Longrightarrow> H (s', g') = []"
  shows "concat (map H (rx_go (Star (Sat p)) (xs, g))) = H (dropWhile p xs, g)"
proof (induction xs)
  case Nil
  show ?case by (simp only: rx_go_Star_Sat_Nil) simp
next
  case (Cons x xs)
  show ?case
  proof (cases "p x")
    case True
    then have "H (x # xs, g) = []" using assms [of "x # xs" g] by simp
    with True Cons show ?thesis by (simp only: rx_go_Star_Sat_Cons) simp
  next
    case False
    then show ?thesis by (simp only: rx_go_Star_Sat_Cons) simp
  qed
qed

lemma take_length_diff: "take (length (a @ b) - length b) (a @ b) = a"
  by simp

lemma rx_match_at_pat_tag: "rx_match_at (pat_tag nombre) s = tag_en nombre s"
proof -
  let ?cab = "CHR ''['' # nombre @ '':''"
  let ?p = "\<lambda>c. c \<noteq> CHR '']''"
  let ?K2 = "Seq (Chr CHR '']'') Eps"
  have pat: "pat_tag nombre = Seq (Str ?cab) (Seq (Grp 1 (Seq (Sat ?p) (Star (Sat ?p)))) ?K2)"
    by (simp add: pat_tag_def Seqs_def Plus_def)
  show ?thesis
  proof (cases "prefix ?cab s")
    case False
    then show ?thesis
      by (simp add: rx_match_at_def pat rx_go_Str tag_en_def del: rx_go.simps(5))
  next
    case True
    define r where "r = drop (length ?cab) s"
    have K2: "rx_go ?K2 (s', g') =
        (case s' of [] \<Rightarrow> [] | c # rest \<Rightarrow> if c = CHR '']'' then [(rest, g')] else [])" for s' g'
      by (cases s') (simp_all add: rx_go_Chr)
    have te: "tag_en nombre s =
        (if takeWhile ?p r \<noteq> [] \<and> dropWhile ?p r \<noteq> []
         then Some \<lparr>group0 = ?cab @ takeWhile ?p r @ '']'', groups = [(1, takeWhile ?p r)],
                       resto = tl (dropWhile ?p r)\<rparr>
         else None)"
      using True unfolding tag_en_def r_def by (simp add: Let_def)
    have go: "rx_go (pat_tag nombre) (s, []) =
        concat (map (rx_go ?K2) (rx_go (Grp 1 (Seq (Sat ?p) (Star (Sat ?p)))) (r, [])))"
      using True by (simp add: pat rx_go_Str r_def del: rx_go.simps(5))
    show ?thesis
    proof (cases r)
      case Nil
      then show ?thesis
        by (simp add: rx_match_at_def go te del: rx_go.simps(5))
    next
      case (Cons x xs)
      show ?thesis
      proof (cases "x = CHR '']''")
        case True
        with Cons show ?thesis
          by (simp add: rx_match_at_def go te del: rx_go.simps(5))
      next
        case False
        let ?H = "\<lambda>(s', g'). rx_go ?K2 (s', (1, take (length r - length s') r) # g')"
        have H0: "?H (s', g') = []" if "s' = [] \<or> ?p (hd s')" for s' g'
          using that by (cases s') (auto simp: K2 simp del: rx_go.simps)
        have "rx_go (pat_tag nombre) (s, []) =
            concat (map ?H (rx_go (Star (Sat ?p)) (xs, [])))"
          using False
          unfolding go Cons rx_go.simps(6) rx_go_Plus_Sat_Cons
          by (simp add: comp_def case_prod_unfold del: rx_go.simps)
        also have "\<dots> = ?H (dropWhile ?p xs, [])"
          by (rule concat_map_Star_Sat) (use H0 in blast)
        finally have eq: "rx_go (pat_tag nombre) (s, []) = ?H (dropWhile ?p xs, [])" .
        have tw: "takeWhile ?p r = x # takeWhile ?p xs" and dw: "dropWhile ?p r = dropWhile ?p xs"
          using False Cons by simp_all
        have s_eq: "s = ?cab @ r"
        proof -
          from \<open>prefix ?cab s\<close> obtain z where z: "s = ?cab @ z" by (auto simp: prefix_def)
          then have "r = z" by (simp add: r_def)
          with z show ?thesis by simp
        qed
        have td: "r = takeWhile ?p r @ dropWhile ?p r" by (simp only: takeWhile_dropWhile_id)
        show ?thesis
        proof (cases "dropWhile ?p xs")
          case Nil
          have a: "rx_go (pat_tag nombre) (s, []) = []"
            unfolding eq Nil by (simp add: K2 del: rx_go.simps)
          have b: "tag_en nombre s = None" unfolding te dw Nil by simp
          show ?thesis by (simp add: rx_match_at_def a b)
        next
          case (Cons c rest)
          have "\<not> ?p (hd (dropWhile ?p xs))" by (rule hd_dropWhile) (simp add: Cons)
          then have c: "c = CHR '']''" by (simp add: Cons)
          have rr: "r = (x # takeWhile ?p xs) @ CHR '']'' # rest"
            using td unfolding tw dw Cons c .
          have tk: "take (length r - Suc (length rest)) r = x # takeWhile ?p xs"
            using take_length_diff [of "x # takeWhile ?p xs" "CHR '']'' # rest"]
            unfolding rr [symmetric] by simp
          have sA: "s = (?cab @ (x # takeWhile ?p xs) @ '']'') @ rest"
            by (subst s_eq, subst rr) simp
          have g0: "take (length s - length rest) s = ?cab @ (x # takeWhile ?p xs) @ '']''"
            using take_length_diff [of "?cab @ (x # takeWhile ?p xs) @ '']''" rest]
            unfolding sA [symmetric] .
          have a: "rx_go (pat_tag nombre) (s, []) = [(rest, [(1, x # takeWhile ?p xs)])]"
            unfolding eq Cons c by (simp add: K2 tk del: rx_go.simps)
          have b: "tag_en nombre s = Some \<lparr>group0 = ?cab @ (x # takeWhile ?p xs) @ '']'',
              groups = [(1, x # takeWhile ?p xs)], resto = rest\<rparr>"
            unfolding te dw tw Cons by simp
          show ?thesis unfolding rx_match_at_def a b using g0 by simp
        qed
      qed
    qed
  qed
qed

lemma necesita_corchete_Nil: "necesita_corchete p \<Longrightarrow> rx_match_at p [] = None"
  unfolding necesita_corchete_def by blast

lemma necesita_corchete_Cons:
  "necesita_corchete p \<Longrightarrow> c \<noteq> CHR ''['' \<Longrightarrow> rx_match_at p (c # s) = None"
  unfolding necesita_corchete_def by (metis list.sel(1))

lemma necesita_corchete_pat_tag: "necesita_corchete (pat_tag nombre)"
  by (auto simp: necesita_corchete_def rx_match_at_pat_tag tag_en_def Let_def prefix_def)

lemma rx_match_at_Str:
  "rx_match_at (Str t) s =
     (if prefix t s then Some \<lparr>group0 = t, groups = [], resto = drop (length t) s\<rparr> else None)"
  by (auto simp: rx_match_at_def rx_go_Str prefix_def)

lemma necesita_corchete_Str: "necesita_corchete (Str (CHR ''['' # t))"
  by (auto simp: necesita_corchete_def rx_match_at_Str prefix_def)

lemma search_salta:
  assumes "necesita_corchete p" and "CHR ''['' \<notin> set pre"
  shows "search p (pre @ s) = search p s"
  using assms(2)
proof (induction pre)
  case Nil
  then show ?case by simp
next
  case (Cons c pre)
  then have "rx_match_at p (c # pre @ s) = None"
    using assms(1) by (intro necesita_corchete_Cons) auto
  with Cons show ?case by simp
qed

lemma search_Nil: "necesita_corchete p \<Longrightarrow> search p [] = None"
  by (simp add: necesita_corchete_Nil)

lemma search_libre:
  "necesita_corchete p \<Longrightarrow> CHR ''['' \<notin> set s \<Longrightarrow> search p s = None"
  using search_salta [of p s "[]"] by (simp add: necesita_corchete_Nil)

lemma findall_salta:
  assumes "necesita_corchete p" and "CHR ''['' \<notin> set pre"
  shows "findall p (pre @ s) = findall p s"
  using assms(2)
proof (induction pre)
  case Nil
  then show ?case by simp
next
  case (Cons c pre)
  then have "rx_match_at p (c # pre @ s) = None"
    using assms(1) by (intro necesita_corchete_Cons) auto
  with Cons show ?case by simp
qed

lemma findall_libre:
  "necesita_corchete p \<Longrightarrow> CHR ''['' \<notin> set s \<Longrightarrow> findall p s = []"
  using findall_salta [of p s "[]"] by (simp add: necesita_corchete_Nil)

text \<open>A position that starts a tag of another kind: the search moves past the tag.\<close>

lemma search_pasa_tag:
  assumes "necesita_corchete p" and "rx_match_at p (texto_tag n b @ s) = None"
    and "CHR ''['' \<notin> set n" and "CHR ''['' \<notin> set b"
  shows "search p (texto_tag n b @ s) = search p s"
proof -
  have "search p (texto_tag n b @ s) = search p ((n @ '':'' @ b @ '']'') @ s)"
    using assms(2) by (simp add: texto_tag_def)
  also have "\<dots> = search p s"
    using assms by (intro search_salta) auto
  finally show ?thesis .
qed

lemma findall_pasa_tag:
  assumes "necesita_corchete p" and "rx_match_at p (texto_tag n b @ s) = None"
    and "CHR ''['' \<notin> set n" and "CHR ''['' \<notin> set b"
  shows "findall p (texto_tag n b @ s) = findall p s"
proof -
  have "findall p (texto_tag n b @ s) = findall p ((n @ '':'' @ b @ '']'') @ s)"
    using assms(2) by (simp add: texto_tag_def)
  also have "\<dots> = findall p s"
    using assms by (intro findall_salta) auto
  finally show ?thesis .
qed

lemma tag_en_texto_tag:
  assumes "b \<noteq> []" and "CHR '']'' \<notin> set b"
  shows "tag_en n (texto_tag n b @ s) = Some \<lparr>group0 = texto_tag n b, groups = [(1, b)], resto = s\<rparr>"
proof -
  have tw: "takeWhile (\<lambda>c. c \<noteq> CHR '']'') (b @ CHR '']'' # s) = b"
    using assms(2) by (subst takeWhile_append2) auto
  have dw: "dropWhile (\<lambda>c. c \<noteq> CHR '']'') (b @ CHR '']'' # s) = CHR '']'' # s"
    using assms(2) by (subst dropWhile_append2) auto
  show ?thesis
    using assms(1) by (simp add: tag_en_def texto_tag_def tw dw)
qed

lemma search_primer_tag:
  assumes "CHR ''['' \<notin> set pre" and "b \<noteq> []" and "CHR '']'' \<notin> set b"
  shows "search (pat_tag n) (pre @ texto_tag n b @ s) =
           Some \<lparr>group0 = texto_tag n b, groups = [(1, b)], resto = s\<rparr>"
proof -
  have "search (pat_tag n) (pre @ texto_tag n b @ s) = search (pat_tag n) (texto_tag n b @ s)"
    using assms(1) by (intro search_salta necesita_corchete_pat_tag)
  also have "\<dots> = Some \<lparr>group0 = texto_tag n b, groups = [(1, b)], resto = s\<rparr>"
    using tag_en_texto_tag [OF assms(2,3), of n s]
    by (simp add: texto_tag_def rx_match_at_pat_tag)
  finally show ?thesis .
qed

subsection \<open>Replacing a tag\<close>

lemma replace_salta:
  assumes "CHR ''['' \<notin> set pre"
  shows "replace (CHR ''['' # t) new (pre @ s) = pre @ replace (CHR ''['' # t) new s"
  using assms by (induction pre) (auto simp: prefix_def)

lemma replace_libre:
  "CHR ''['' \<notin> set s \<Longrightarrow> replace (CHR ''['' # t) new s = s"
  using replace_salta [of s t new "[]"] by simp

lemma replace_al_inicio:
  "old \<noteq> [] \<Longrightarrow> replace old new (old @ s) = new @ replace old new s"
  by (cases old) simp_all

lemma prefix_texto_tag:
  assumes "CHR '']'' \<notin> set b1" and "CHR '']'' \<notin> set b2"
  shows "prefix (texto_tag n b1) (texto_tag n b2 @ s) \<longleftrightarrow> b1 = b2"
proof
  assume "prefix (texto_tag n b1) (texto_tag n b2 @ s)"
  then have "prefix (b1 @ '']'') (b2 @ '']'' @ s)" by (simp add: texto_tag_def)
  then obtain z where z: "b2 @ CHR '']'' # s = b1 @ CHR '']'' # z" by (auto simp: prefix_def)
  have "takeWhile (\<lambda>c. c \<noteq> CHR '']'') (b2 @ CHR '']'' # s) = b2"
    using assms(2) by (subst takeWhile_append2) auto
  moreover have "takeWhile (\<lambda>c. c \<noteq> CHR '']'') (b1 @ CHR '']'' # z) = b1"
    using assms(1) by (subst takeWhile_append2) auto
  ultimately show "b1 = b2" using z by simp
next
  assume "b1 = b2"
  then show "prefix (texto_tag n b1) (texto_tag n b2 @ s)" by simp
qed

lemma replace_otro_tag:
  assumes "b1 \<noteq> b2" and "CHR '']'' \<notin> set b1" and "CHR '']'' \<notin> set b2"
    and "CHR ''['' \<notin> set n" and "CHR ''['' \<notin> set b2"
  shows "replace (texto_tag n b1) new (texto_tag n b2 @ s) =
           texto_tag n b2 @ replace (texto_tag n b1) new s"
proof -
  have np: "\<not> prefix (texto_tag n b1) (texto_tag n b2 @ s)"
    using prefix_texto_tag [OF assms(2,3)] assms(1) by simp
  have t1: "texto_tag n b1 = CHR ''['' # (n @ '':'' @ b1 @ '']'')" by (simp add: texto_tag_def)
  have "texto_tag n b2 @ s = CHR ''['' # ((n @ '':'' @ b2 @ '']'') @ s)" by (simp add: texto_tag_def)
  then have "replace (texto_tag n b1) new (texto_tag n b2 @ s) =
      CHR ''['' # replace (texto_tag n b1) new ((n @ '':'' @ b2 @ '']'') @ s)"
    using np by simp
  also have "\<dots> = CHR ''['' # (n @ '':'' @ b2 @ '']'') @ replace (texto_tag n b1) new s"
    unfolding t1 using assms(4,5) by (subst replace_salta) auto
  finally show ?thesis by (simp add: texto_tag_def)
qed

lemma replace_dos_tags:
  assumes "CHR ''['' \<notin> set pre" "CHR ''['' \<notin> set mid" "CHR ''['' \<notin> set post"
    and "CHR ''['' \<notin> set n"
    and "CHR '']'' \<notin> set b1" "CHR '']'' \<notin> set b2" "CHR ''['' \<notin> set b2"
  shows "replace (texto_tag n b1) new (pre @ texto_tag n b1 @ mid @ texto_tag n b2 @ post) =
           pre @ new @ mid @ (if b2 = b1 then new else texto_tag n b2) @ post"
proof -
  let ?t1 = "texto_tag n b1"
  have t1: "?t1 = CHR ''['' # (n @ '':'' @ b1 @ '']'')" by (simp add: texto_tag_def)
  have ne: "?t1 \<noteq> []" by (simp add: texto_tag_def)
  have post: "replace ?t1 new post = post"
    unfolding t1 using assms(3) by (rule replace_libre)
  have fin: "replace ?t1 new (texto_tag n b2 @ post) =
      (if b2 = b1 then new else texto_tag n b2) @ post"
  proof (cases "b2 = b1")
    case True
    then show ?thesis using replace_al_inicio [OF ne, of new post] post by simp
  next
    case False
    then show ?thesis
      using replace_otro_tag [of b1 b2 n new post] assms post by auto
  qed
  have "replace ?t1 new (pre @ ?t1 @ mid @ texto_tag n b2 @ post) =
      pre @ replace ?t1 new (?t1 @ mid @ texto_tag n b2 @ post)"
    unfolding t1 using assms(1) by (rule replace_salta)
  also have "\<dots> = pre @ new @ replace ?t1 new (mid @ texto_tag n b2 @ post)"
    using replace_al_inicio [OF ne] by simp
  also have "\<dots> = pre @ new @ mid @ replace ?t1 new (texto_tag n b2 @ post)"
    unfolding t1 using assms(2) by (subst replace_salta) auto
  finally show ?thesis using fin by simp
qed

subsection \<open>Side effects per phase\<close>

lemma fase_productos_acciones:
  assumes "fase_productos ms st = Inr st'" and "\<And>d. \<not> P (MostrarProducto d)"
  shows "filter P (acciones st') = filter P (acciones st)"
  using assms(1)
proof (induction ms arbitrary: st)
  case Nil
  then show ?case by simp
next
  case (Cons m ms)
  show ?case
  proof (cases "length (split CHR ''|'' m) \<ge> 3")
    case True
    with Cons.prems obtain d where
      "fase_productos ms
         (st\<lparr>productos_display := productos_display st @ [d],
             texto := replace (''[PRODUCTO:'' @ m @ '']'')
                        (nl @ ''**'' @ pd_nombre d @ ''** - S/'' @ strip (split CHR ''|'' m ! 2)) (texto st),
             acciones := acciones st @ [MostrarProducto d]\<rparr>) = Inr st'"
      by (auto simp: Let_def split: sum.splits)
    from Cons.IH [OF this] assms(2) show ?thesis by simp
  next
    case False
    with Cons.prems have "fase_productos ms st = Inr st'" by (simp add: Let_def)
    from Cons.IH [OF this] show ?thesis .
  qed
qed

lemma fase_buscar_acciones:
  "acciones (fase_buscar env r st) = acciones st \<or>
   (\<exists>q n. acciones (fase_buscar env r st) = acciones st @ [Buscar q n])"
  by (simp add: fase_buscar_def Let_def split: option.splits)

lemma fase_agregar_acciones:
  "acciones (fase_agregar env r st) = acciones st \<or>
   (\<exists>i n p. acciones (fase_agregar env r st) = acciones st @ [AgregarCarrito i n p])"
  by (simp add: fase_agregar_def Let_def split: option.splits)

lemma fase_checkout_acciones:
  "fase_checkout env r st = Inr st' \<Longrightarrow>
   acciones st' = acciones st \<or> (\<exists>c u. acciones st' = acciones st @ [Checkout c u True])"
  by (auto simp: fase_checkout_def Let_def split: option.splits)

lemma fase_ver_carrito_acciones:
  "fase_ver_carrito env r st = Inr st' \<Longrightarrow>
   acciones st' = acciones st \<or> acciones st' = acciones st @ [VerCarrito]"
  by (auto simp: fase_ver_carrito_def Let_def split: option.splits sum.splits)

lemma fase_generar_checkout_acciones:
  "fase_generar_checkout env r st = Inr st' \<Longrightarrow>
   acciones st' = acciones st \<or> (\<exists>c u. acciones st' = acciones st @ [Checkout c u False])"
  by (auto simp: fase_generar_checkout_def Let_def split: option.splits sum.splits if_splits)

lemma sum_cantidad_actualizar:
  "actualizar_existente its pid n = Some its' \<Longrightarrow>
   sum_list (map cantidad its') = sum_list (map cantidad its) + n"
  by (induction its arbitrary: its') (auto split: if_splits)

lemma total_items_agregar_item: "total_items (agregar_item k p n) = total_items k + n"
  by (auto simp: total_items_def agregar_item_def CarritoItem_init_def
      split: option.splits dest: sum_cantidad_actualizar)

lemma fase_agregar_unidades:
  "unidades (conv (fase_agregar env r st)) = unidades (conv st) \<or>
   unidades (conv (fase_agregar env r st)) = unidades (conv st) + 1"
proof -
  have e: "total_items \<lparr>session_id = i, items = []\<rparr> = 0" for i
    by (simp add: total_items_def)
  show ?thesis
    by (auto simp: fase_agregar_def Let_def unidades_def total_items_agregar_item e
        split: option.splits)
qed

lemma a_lo_mas_uno:
  assumes "procesar_acciones env r c = Inr (t, prods, accs, c')"
  shows "length (filter es_agregar accs) \<le> 1 \<and> length (filter es_buscar accs) \<le> 1 \<and>
         length (filter es_checkout accs) \<le> 1 \<and>
         (unidades c' = unidades c \<or> unidades c' = unidades c + 1)"
proof -
  let ?st0 = "\<lparr>texto = r, productos_display = [], acciones = [], conv = c, usados = 0\<rparr>"
  from assms obtain st1 st4 st5 st6 where
    1: "fase_productos (map (\<lambda>m. rx_group m 1) (findall pat_PRODUCTO r)) ?st0 = Inr st1"
    and 4: "fase_checkout env r (fase_agregar env r (fase_buscar env r st1)) = Inr st4"
    and 5: "fase_ver_carrito env r st4 = Inr st5"
    and 6: "fase_generar_checkout env r st5 = Inr st6"
    and res: "accs = acciones st6" "c' = conv st6"
    unfolding procesar_acciones_def bind_err_Inr by auto
  let ?st2 = "fase_buscar env r st1"
  let ?st3 = "fase_agregar env r ?st2"
  have a1: "filter P (acciones st1) = []" if "\<And>d. \<not> P (MostrarProducto d)" for P
    using fase_productos_acciones [OF 1, of P] that by simp
  note a2 = fase_buscar_acciones [of env r st1]
  note a3 = fase_agregar_acciones [of env r ?st2]
  note a4 = fase_checkout_acciones [OF 4]
  note a5 = fase_ver_carrito_acciones [OF 5]
  note a6 = fase_generar_checkout_acciones [OF 6]
  have ag: "length (filter es_agregar accs) \<le> 1"
    using a1 [of es_agregar] a2 a3 a4 a5 a6 unfolding res
    by (auto simp: es_agregar_def)
  have bu: "length (filter es_buscar accs) \<le> 1"
    using a1 [of es_buscar] a2 a3 a4 a5 a6 unfolding res
    by (auto simp: es_buscar_def)
  have ch: "length (filter es_checkout accs) \<le> 1"
    using a1 [of es_checkout] a2 a3 a4 a5 a6 unfolding res
    by (auto simp: es_checkout_def)
  have "conv st6 = conv ?st3"
    using fase_checkout_conv [OF 4] fase_ver_carrito_conv [OF 5] fase_generar_checkout_conv [OF 6]
    by simp
  moreover have "conv ?st2 = c" using fase_productos_conv [OF 1] fase_buscar_conv [of env r st1] by simp
  ultimately have un: "unidades c' = unidades c \<or> unidades c' = unidades c + 1"
    using fase_agregar_unidades [of env r ?st2] res by simp
  from ag bu ch un show ?thesis by blast
qed

subsection \<open>Replies with two directives of one kind (C9)\<close>

lemma search_otro:
  assumes "necesita_corchete p" and "\<And>b s. rx_match_at p (texto_tag n b @ s) = None"
    and "sin_abrir n" "sin_abrir pre" "sin_abrir mid" "sin_abrir post"
    and "cuerpo_simple b1" "cuerpo_simple b2"
  shows "search p (dos_tags n pre b1 mid b2 post) = None"
    and "search p (un_tag n pre b1 mid post) = None"
    and "findall p (dos_tags n pre b1 mid b2 post) = []"
    and "findall p (un_tag n pre b1 mid post) = []"
proof -
  have post: "search p post = None" "findall p post = []"
    using assms(1,6) by (simp_all add: search_libre findall_libre sin_abrir_def)
  have mp: "search p (mid @ post) = None" "findall p (mid @ post) = []"
    using assms(1,5) post by (simp_all add: search_salta findall_salta sin_abrir_def)
  have t2: "search p (texto_tag n b2 @ post) = None" "findall p (texto_tag n b2 @ post) = []"
    using assms(1,2,3,8) post
    by (simp_all add: search_pasa_tag findall_pasa_tag sin_abrir_def cuerpo_simple_def)
  have m2: "search p (mid @ texto_tag n b2 @ post) = None"
      "findall p (mid @ texto_tag n b2 @ post) = []"
    using assms(1,5) t2 by (simp_all add: search_salta findall_salta sin_abrir_def)
  have t1: "search p (texto_tag n b1 @ mid @ texto_tag n b2 @ post) = None"
      "findall p (texto_tag n b1 @ mid @ texto_tag n b2 @ post) = []"
      "search p (texto_tag n b1 @ mid @ post) = None"
      "findall p (texto_tag n b1 @ mid @ post) = []"
    using assms(1,2,3,7) m2 mp
    by (simp_all add: search_pasa_tag findall_pasa_tag sin_abrir_def cuerpo_simple_def)
  show "search p (dos_tags n pre b1 mid b2 post) = None"
    and "search p (un_tag n pre b1 mid post) = None"
    and "findall p (dos_tags n pre b1 mid b2 post) = []"
    and "findall p (un_tag n pre b1 mid post) = []"
    using assms(1,4) t1
    by (simp_all add: dos_tags_def un_tag_def search_salta findall_salta sin_abrir_def)
qed

lemma search_propio:
  assumes "sin_abrir pre" and "cuerpo_simple b1"
  shows "\<exists>m. search (pat_tag n) (dos_tags n pre b1 mid b2 post) = Some m \<and>
             group0 m = texto_tag n b1 \<and> rx_group m 1 = b1"
    and "\<exists>m. search (pat_tag n) (un_tag n pre b1 mid post) = Some m \<and>
             group0 m = texto_tag n b1 \<and> rx_group m 1 = b1"
  using assms
    search_primer_tag [of pre b1 n "mid @ texto_tag n b2 @ post"]
    search_primer_tag [of pre b1 n "mid @ post"]
  by (simp_all add: dos_tags_def un_tag_def sin_abrir_def cuerpo_simple_def rx_group_def)

lemma replace_familia:
  assumes "sin_abrir n" "sin_abrir pre" "sin_abrir mid" "sin_abrir post"
    and "cuerpo_simple b1" "cuerpo_simple b2"
  shows "replace (texto_tag n b1) new (dos_tags n pre b1 mid b2 post) =
           pre @ new @ mid @ (if b2 = b1 then new else texto_tag n b2) @ post"
    and "replace (texto_tag n b1) new (un_tag n pre b1 mid post) = pre @ new @ mid @ post"
proof -
  show "replace (texto_tag n b1) new (dos_tags n pre b1 mid b2 post) =
           pre @ new @ mid @ (if b2 = b1 then new else texto_tag n b2) @ post"
    unfolding dos_tags_def
    using assms by (intro replace_dos_tags) (simp_all add: sin_abrir_def cuerpo_simple_def)
  have t1: "texto_tag n b1 = CHR ''['' # (n @ '':'' @ b1 @ '']'')" by (simp add: texto_tag_def)
  have "replace (texto_tag n b1) new (pre @ texto_tag n b1 @ mid @ post) =
      pre @ replace (texto_tag n b1) new (texto_tag n b1 @ mid @ post)"
    unfolding t1 using assms(2) by (intro replace_salta) (simp add: sin_abrir_def)
  also have "\<dots> = pre @ new @ replace (texto_tag n b1) new (mid @ post)"
    by (subst replace_al_inicio) (simp_all add: texto_tag_def)
  also have "replace (texto_tag n b1) new (mid @ post) = mid @ post"
    unfolding t1 using assms(3,4) by (intro replace_libre) (simp add: sin_abrir_def)
  finally show "replace (texto_tag n b1) new (un_tag n pre b1 mid post) = pre @ new @ mid @ post"
    by (simp add: un_tag_def)
qed

lemma otros_tags:
  "rx_match_at pat_PRODUCTO (texto_tag ''AGREGAR_CARRITO'' b @ s) = None"
  "rx_match_at pat_BUSCAR_PRODUCTO (texto_tag ''AGREGAR_CARRITO'' b @ s) = None"
  "rx_match_at pat_CHECKOUT (texto_tag ''AGREGAR_CARRITO'' b @ s) = None"
  "rx_match_at pat_VER_CARRITO (texto_tag ''AGREGAR_CARRITO'' b @ s) = None"
  "rx_match_at pat_GENERAR_CHECKOUT (texto_tag ''AGREGAR_CARRITO'' b @ s) = None"
  "rx_match_at pat_PRODUCTO (texto_tag ''BUSCAR_PRODUCTO'' b @ s) = None"
  "rx_match_at pat_AGREGAR_CARRITO (texto_tag ''BUSCAR_PRODUCTO'' b @ s) = None"
  "rx_match_at pat_CHECKOUT (texto_tag ''BUSCAR_PRODUCTO'' b @ s) = None"
  "rx_match_at pat_VER_CARRITO (texto_tag ''BUSCAR_PRODUCTO'' b @ s) = None"
  "rx_match_at pat_GENERAR_CHECKOUT (texto_tag ''BUSCAR_PRODUCTO'' b @ s) = None"
  "rx_match_at pat_PRODUCTO (texto_tag ''CHECKOUT'' b @ s) = None"
  "rx_match_at pat_BUSCAR_PRODUCTO (texto_tag ''CHECKOUT'' b @ s) = None"
  "rx_match_at pat_AGREGAR_CARRITO (texto_tag ''CHECKOUT'' b @ s) = None"
  "rx_match_at pat_VER_CARRITO (texto_tag ''CHECKOUT'' b @ s) = None"
  "rx_match_at pat_GENERAR_CHECKOUT (texto_tag ''CHECKOUT'' b @ s) = None"
  by (simp_all add: pat_PRODUCTO_def pat_BUSCAR_PRODUCTO_def pat_AGREGAR_CARRITO_def
      pat_CHECKOUT_def pat_VER_CARRITO_def pat_GENERAR_CHECKOUT_def
      rx_match_at_pat_tag rx_match_at_Str tag_en_def texto_tag_def)

lemma necesitan_corchete:
  "necesita_corchete pat_PRODUCTO" "necesita_corchete pat_BUSCAR_PRODUCTO"
  "necesita_corchete pat_AGREGAR_CARRITO" "necesita_corchete pat_CHECKOUT"
  "necesita_corchete pat_VER_CARRITO" "necesita_corchete pat_GENERAR_CHECKOUT"
  by (simp_all add: pat_PRODUCTO_def pat_BUSCAR_PRODUCTO_def pat_AGREGAR_CARRITO_def
      pat_CHECKOUT_def pat_VER_CARRITO_def pat_GENERAR_CHECKOUT_def
      necesita_corchete_pat_tag necesita_corchete_Str)

lemma sin_abrir_nombres:
  "sin_abrir ''AGREGAR_CARRITO''" "sin_abrir ''BUSCAR_PRODUCTO''" "sin_abrir ''CHECKOUT''"
  by (simp_all add: sin_abrir_def)

lemma fase_productos_Nil: "fase_productos [] st = Inr st"
  by simp

lemma familia_agregar:
  assumes "sin_abrir pre" "sin_abrir mid" "sin_abrir post"
    and "cuerpo_simple b1" "cuerpo_simple b2"
  shows "\<exists>accs c'.
      procesar_acciones env (un_tag ''AGREGAR_CARRITO'' pre b1 mid post) c =
        Inr (strip (pre @ mid @ post), [], accs, c') \<and>
      procesar_acciones env (dos_tags ''AGREGAR_CARRITO'' pre b1 mid b2 post) c =
        Inr (strip (pre @ mid @ (if b2 = b1 then [] else texto_tag ''AGREGAR_CARRITO'' b2) @ post),
             [], accs, c')"
proof -
  let ?n = "''AGREGAR_CARRITO''"
  let ?r1 = "un_tag ?n pre b1 mid post"
  let ?r2 = "dos_tags ?n pre b1 mid b2 post"
  note o = search_otro [OF _ _ sin_abrir_nombres(1) assms(1,2,3,4,5)]
  note oP = o [OF necesitan_corchete(1) otros_tags(1)]
  note oB = o [OF necesitan_corchete(2) otros_tags(2)]
  note oC = o [OF necesitan_corchete(4) otros_tags(3)]
  note oV = o [OF necesitan_corchete(5) otros_tags(4)]
  note oG = o [OF necesitan_corchete(6) otros_tags(5)]
  from search_propio(1) [OF assms(1,4), of ?n mid b2 post]
    search_propio(2) [OF assms(1,4), of ?n mid post] obtain m2 m1 where
    m2: "search pat_AGREGAR_CARRITO ?r2 = Some m2" "group0 m2 = texto_tag ?n b1" "rx_group m2 1 = b1"
    and m1: "search pat_AGREGAR_CARRITO ?r1 = Some m1" "group0 m1 = texto_tag ?n b1" "rx_group m1 1 = b1"
    unfolding pat_AGREGAR_CARRITO_def by blast
  have g: "rx_group m1 (Suc 0) = b1" "rx_group m2 (Suc 0) = b1" using m1(3) m2(3) by simp_all
  note rp = replace_familia [OF sin_abrir_nombres(1) assms(1,2,3,4,5), of "[]"]
  have 1: "procesar_acciones env ?r1 c =
      (let st = fase_agregar env ?r1 \<lparr>texto = ?r1, productos_display = [], acciones = [], conv = c, usados = 0\<rparr>
       in Inr (strip (texto st), productos_display st, acciones st, conv st))"
    unfolding procesar_acciones_def oP list.map fase_productos_Nil
    by (simp add: bind_err_def fase_buscar_def fase_checkout_def fase_ver_carrito_def
        fase_generar_checkout_def oB oC oV oG Let_def)
  have 2: "procesar_acciones env ?r2 c =
      (let st = fase_agregar env ?r2 \<lparr>texto = ?r2, productos_display = [], acciones = [], conv = c, usados = 0\<rparr>
       in Inr (strip (texto st), productos_display st, acciones st, conv st))"
    unfolding procesar_acciones_def oP list.map fase_productos_Nil
    by (simp add: bind_err_def fase_buscar_def fase_checkout_def fase_ver_carrito_def
        fase_generar_checkout_def oB oC oV oG Let_def)
  show ?thesis
    unfolding 1 2
    by (simp add: fase_agregar_def m1 m2 g rp Let_def split: option.splits)
qed

lemma familia_buscar:
  assumes "sin_abrir pre" "sin_abrir mid" "sin_abrir post"
    and "cuerpo_simple b1" "cuerpo_simple b2"
  shows "\<exists>ps accs.
      procesar_acciones env (un_tag ''BUSCAR_PRODUCTO'' pre b1 mid post) c =
        Inr (strip (pre @ reemplazo_buscar env b1 @ mid @ post), ps, accs, c) \<and>
      procesar_acciones env (dos_tags ''BUSCAR_PRODUCTO'' pre b1 mid b2 post) c =
        Inr (strip (pre @ reemplazo_buscar env b1 @ mid @
                    (if b2 = b1 then reemplazo_buscar env b1 else texto_tag ''BUSCAR_PRODUCTO'' b2) @ post),
             ps, accs, c)"
proof -
  let ?n = "''BUSCAR_PRODUCTO''"
  let ?r1 = "un_tag ?n pre b1 mid post"
  let ?r2 = "dos_tags ?n pre b1 mid b2 post"
  note o = search_otro [OF _ _ sin_abrir_nombres(2) assms(1,2,3,4,5)]
  note oP = o [OF necesitan_corchete(1) otros_tags(6)]
  note oA = o [OF necesitan_corchete(3) otros_tags(7)]
  note oC = o [OF necesitan_corchete(4) otros_tags(8)]
  note oV = o [OF necesitan_corchete(5) otros_tags(9)]
  note oG = o [OF necesitan_corchete(6) otros_tags(10)]
  from search_propio(1) [OF assms(1,4), of ?n mid b2 post]
    search_propio(2) [OF assms(1,4), of ?n mid post] obtain m2 m1 where
    m2: "search pat_BUSCAR_PRODUCTO ?r2 = Some m2" "group0 m2 = texto_tag ?n b1" "rx_group m2 1 = b1"
    and m1: "search pat_BUSCAR_PRODUCTO ?r1 = Some m1" "group0 m1 = texto_tag ?n b1" "rx_group m1 1 = b1"
    unfolding pat_BUSCAR_PRODUCTO_def by blast
  have g: "rx_group m1 (Suc 0) = b1" "rx_group m2 (Suc 0) = b1" using m1(3) m2(3) by simp_all
  note rp = replace_familia [OF sin_abrir_nombres(2) assms(1,2,3,4,5)]
  have 1: "procesar_acciones env ?r1 c =
      (let st = fase_buscar env ?r1 \<lparr>texto = ?r1, productos_display = [], acciones = [], conv = c, usados = 0\<rparr>
       in Inr (strip (texto st), productos_display st, acciones st, conv st))"
    unfolding procesar_acciones_def oP list.map fase_productos_Nil
    by (simp add: bind_err_def fase_agregar_def fase_checkout_def fase_ver_carrito_def
        fase_generar_checkout_def oA oC oV oG Let_def)
  have 2: "procesar_acciones env ?r2 c =
      (let st = fase_buscar env ?r2 \<lparr>texto = ?r2, productos_display = [], acciones = [], conv = c, usados = 0\<rparr>
       in Inr (strip (texto st), productos_display st, acciones st, conv st))"
    unfolding procesar_acciones_def oP list.map fase_productos_Nil
    by (simp add: bind_err_def fase_agregar_def fase_checkout_def fase_ver_carrito_def
        fase_generar_checkout_def oA oC oV oG Let_def)
  show ?thesis
    unfolding 1 2
    by (simp add: fase_buscar_def reemplazo_buscar_def m1 m2 g rp Let_def)
qed

lemma familia_checkout:
  assumes "sin_abrir pre" "sin_abrir mid" "sin_abrir post"
    and "cuerpo_simple b1" "cuerpo_simple b2"
    and "carrito c = None"
  shows "\<exists>accs.
      procesar_acciones env (un_tag ''CHECKOUT'' pre b1 mid post) c =
        Inr (strip (pre @ reemplazo_checkout env b1 @ mid @ post), [], accs, c) \<and>
      procesar_acciones env (dos_tags ''CHECKOUT'' pre b1 mid b2 post) c =
        Inr (strip (pre @ reemplazo_checkout env b1 @ mid @
                    (if b2 = b1 then reemplazo_checkout env b1 else texto_tag ''CHECKOUT'' b2) @ post),
             [], accs, c)"
proof -
  let ?n = "''CHECKOUT''"
  let ?r1 = "un_tag ?n pre b1 mid post"
  let ?r2 = "dos_tags ?n pre b1 mid b2 post"
  note o = search_otro [OF _ _ sin_abrir_nombres(3) assms(1,2,3,4,5)]
  note oP = o [OF necesitan_corchete(1) otros_tags(11)]
  note oB = o [OF necesitan_corchete(2) otros_tags(12)]
  note oA = o [OF necesitan_corchete(3) otros_tags(13)]
  note oV = o [OF necesitan_corchete(5) otros_tags(14)]
  note oG = o [OF necesitan_corchete(6) otros_tags(15)]
  from search_propio(1) [OF assms(1,4), of ?n mid b2 post]
    search_propio(2) [OF assms(1,4), of ?n mid post] obtain m2 m1 where
    m2: "search pat_CHECKOUT ?r2 = Some m2" "group0 m2 = texto_tag ?n b1" "rx_group m2 1 = b1"
    and m1: "search pat_CHECKOUT ?r1 = Some m1" "group0 m1 = texto_tag ?n b1" "rx_group m1 1 = b1"
    unfolding pat_CHECKOUT_def by blast
  have g: "rx_group m1 (Suc 0) = b1" "rx_group m2 (Suc 0) = b1" using m1(3) m2(3) by simp_all
  note rp = replace_familia [OF sin_abrir_nombres(3) assms(1,2,3,4,5)]
  have 1: "procesar_acciones env ?r1 c =
      bind_err (fase_checkout env ?r1 \<lparr>texto = ?r1, productos_display = [], acciones = [], conv = c, usados = 0\<rparr>)
        (\<lambda>st. Inr (strip (texto st), productos_display st, acciones st, conv st))"
    unfolding procesar_acciones_def oP list.map fase_productos_Nil
    by (auto simp: bind_err_def fase_agregar_def fase_buscar_def fase_ver_carrito_def
        fase_generar_checkout_def oA oB oV oG Let_def fase_checkout_conv assms(6)
        split: sum.splits)
  have 2: "procesar_acciones env ?r2 c =
      bind_err (fase_checkout env ?r2 \<lparr>texto = ?r2, productos_display = [], acciones = [], conv = c, usados = 0\<rparr>)
        (\<lambda>st. Inr (strip (texto st), productos_display st, acciones st, conv st))"
    unfolding procesar_acciones_def oP list.map fase_productos_Nil
    by (auto simp: bind_err_def fase_agregar_def fase_buscar_def fase_ver_carrito_def
        fase_generar_checkout_def oA oB oV oG Let_def fase_checkout_conv assms(6)
        split: sum.splits)
  show ?thesis
    unfolding 1 2
    by (simp add: bind_err_def fase_checkout_def reemplazo_checkout_def m1 m2 g rp Let_def assms(6))
qed

text \<open>
  Claim C9. As stated the claim fails: a later occurrence whose tag text equals the
  first one's is removed from the text too. Here both add-to-cart tags are gone and the
  visible text is \<open>listo\<close>.
\<close>

theorem tag_repetido_se_quita:
  "\<not> isl (procesar_acciones entorno_demo
      ''[AGREGAR_CARRITO:1|Ramo de 12 Rosas Rojas|80] listo [AGREGAR_CARRITO:1|Ramo de 12 Rosas Rojas|80]''
      conv_demo) \<and>
   fst (projr (procesar_acciones entorno_demo
      ''[AGREGAR_CARRITO:1|Ramo de 12 Rosas Rojas|80] listo [AGREGAR_CARRITO:1|Ramo de 12 Rosas Rojas|80]''
      conv_demo)) = ''listo''"
  by code_simp

text \<open>
  Claim C9. Amended. Whenever the parser returns, its side effects hold at most one
  add-to-cart, one legacy-search and one explicit-checkout record, and the cart gains at
  most one unit. For a reply with two directives of one of these kinds and no other
  bracket, the side effects, the displayed products and the conversation are those of the
  reply without the second directive: only the first occurrence is applied. In the text
  every copy of the first occurrence's tag is replaced, so the second tag is replaced as
  well when its text is the same, and stays in place when its text differs. (For the
  checkout directive this is stated for a conversation without a cart, the only one on
  which that phase returns.)
\<close>

theorem una_directiva_por_tipo:
  "(\<forall>t prods accs c'. procesar_acciones env r c = Inr (t, prods, accs, c') \<longrightarrow>
      length (filter es_agregar accs) \<le> 1 \<and> length (filter es_buscar accs) \<le> 1 \<and>
      length (filter es_checkout accs) \<le> 1 \<and>
      (unidades c' = unidades c \<or> unidades c' = unidades c + 1)) \<and>
   (sin_abrir pre \<and> sin_abrir mid \<and> sin_abrir post \<and> cuerpo_simple b1 \<and> cuerpo_simple b2 \<longrightarrow>
      (\<exists>accs c'.
         procesar_acciones env (un_tag ''AGREGAR_CARRITO'' pre b1 mid post) c =
           Inr (strip (pre @ mid @ post), [], accs, c') \<and>
         procesar_acciones env (dos_tags ''AGREGAR_CARRITO'' pre b1 mid b2 post) c =
           Inr (strip (pre @ mid @ (if b2 = b1 then [] else texto_tag ''AGREGAR_CARRITO'' b2) @ post),
                [], accs, c')) \<and>
      (\<exists>ps accs.
         procesar_acciones env (un_tag ''BUSCAR_PRODUCTO'' pre b1 mid post) c =
           Inr (strip (pre @ reemplazo_buscar env b1 @ mid @ post), ps, accs, c) \<and>
         procesar_acciones env (dos_tags ''BUSCAR_PRODUCTO'' pre b1 mid b2 post) c =
           Inr (strip (pre @ reemplazo_buscar env b1 @ mid @
                       (if b2 = b1 then reemplazo_buscar env b1
                        else texto_tag ''BUSCAR_PRODUCTO'' b2) @ post),
                ps, accs, c)) \<and>
      (carrito c = None \<longrightarrow>
        (\<exists>accs.
           procesar_acciones env (un_tag ''CHECKOUT'' pre b1 mid post) c =
             Inr (strip (pre @ reemplazo_checkout env b1 @ mid @ post), [], accs, c) \<and>
           procesar_acciones env (dos_tags ''CHECKOUT'' pre b1 mid b2 post) c =
             Inr (strip (pre @ reemplazo_checkout env b1 @ mid @
                         (if b2 = b1 then reemplazo_checkout env b1
                          else texto_tag ''CHECKOUT'' b2) @ post),
                  [], accs, c))))"
proof (rule conjI)
  show "\<forall>t prods accs c'. procesar_acciones env r c = Inr (t, prods, accs, c') \<longrightarrow>
      length (filter es_agregar accs) \<le> 1 \<and> length (filter es_buscar accs) \<le> 1 \<and>
      length (filter es_checkout accs) \<le> 1 \<and>
      (unidades c' = unidades c \<or> unidades c' = unidades c + 1)"
    by (intro allI impI) (rule a_lo_mas_uno)
next
  show "sin_abrir pre \<and> sin_abrir mid \<and> sin_abrir post \<and> cuerpo_simple b1 \<and> cuerpo_simple b2 \<longrightarrow>
      (\<exists>accs c'.
         procesar_acciones env (un_tag ''AGREGAR_CARRITO'' pre b1 mid post) c =
           Inr (strip (pre @ mid @ post), [], accs, c') \<and>
         procesar_acciones env (dos_tags ''AGREGAR_CARRITO'' pre b1 mid b2 post) c =
           Inr (strip (pre @ mid @ (if b2 = b1 then [] else texto_tag ''AGREGAR_CARRITO'' b2) @ post),
                [], accs, c')) \<and>
      (\<exists>ps accs.
         procesar_acciones env (un_tag ''BUSCAR_PRODUCTO'' pre b1 mid post) c =
           Inr (strip (pre @ reemplazo_buscar env b1 @ mid @ post), ps, accs, c) \<and>
         procesar_acciones env (dos_tags ''BUSCAR_PRODUCTO'' pre b1 mid b2 post) c =
           Inr (strip (pre @ reemplazo_buscar env b1 @ mid @
                       (if b2 = b1 then reemplazo_buscar env b1
                        else texto_tag ''BUSCAR_PRODUCTO'' b2) @ post),
                ps, accs, c)) \<and>
      (carrito c = None \<longrightarrow>
        (\<exists>accs.
           procesar_acciones env (un_tag ''CHECKOUT'' pre b1 mid post) c =
             Inr (strip (pre @ reemplazo_checkout env b1 @ mid @ post), [], accs, c) \<and>
           procesar_acciones env (dos_tags ''CHECKOUT'' pre b1 mid b2 post) c =
             Inr (strip (pre @ reemplazo_checkout env b1 @ mid @
                         (if b2 = b1 then reemplazo_checkout env b1
                          else texto_tag ''CHECKOUT'' b2) @ post),
                  [], accs, c)))"
  proof (intro impI conjI)
    assume h: "sin_abrir pre \<and> sin_abrir mid \<and> sin_abrir post \<and> cuerpo_simple b1 \<and> cuerpo_simple b2"
    then have h1: "sin_abrir pre" and h2: "sin_abrir mid" and h3: "sin_abrir post"
      and h4: "cuerpo_simple b1" and h5: "cuerpo_simple b2" by simp_all
    show "\<exists>accs c'.
         procesar_acciones env (un_tag ''AGREGAR_CARRITO'' pre b1 mid post) c =
           Inr (strip (pre @ mid @ post), [], accs, c') \<and>
         procesar_acciones env (dos_tags ''AGREGAR_CARRITO'' pre b1 mid b2 post) c =
           Inr (strip (pre @ mid @ (if b2 = b1 then [] else texto_tag ''AGREGAR_CARRITO'' b2) @ post),
                [], accs, c')"
      by (rule familia_agregar [OF h1 h2 h3 h4 h5])
    show "\<exists>ps accs.
         procesar_acciones env (un_tag ''BUSCAR_PRODUCTO'' pre b1 mid post) c =
           Inr (strip (pre @ reemplazo_buscar env b1 @ mid @ post), ps, accs, c) \<and>
         procesar_acciones env (dos_tags ''BUSCAR_PRODUCTO'' pre b1 mid b2 post) c =
           Inr (strip (pre @ reemplazo_buscar env b1 @ mid @
                       (if b2 = b1 then reemplazo_buscar env b1
                        else texto_tag ''BUSCAR_PRODUCTO'' b2) @ post),
                ps, accs, c)"
      by (rule familia_buscar [OF h1 h2 h3 h4 h5])
    assume k: "carrito c = None"
    show "\<exists>accs.
           procesar_acciones env (un_tag ''CHECKOUT'' pre b1 mid post) c =
             Inr (strip (pre @ reemplazo_checkout env b1 @ mid @ post), [], accs, c) \<and>
           procesar_acciones env (dos_tags ''CHECKOUT'' pre b1 mid b2 post) c =
             Inr (strip (pre @ reemplazo_checkout env b1 @ mid @
                         (if b2 = b1 then reemplazo_checkout env b1
                          else texto_tag ''CHECKOUT'' b2) @ post),
                  [], accs, c)"
      by (rule familia_checkout [OF h1 h2 h3 h4 h5 k])
  qed
qed

theorem una_directiva_por_tipo_witness:
  "\<exists>accs c'.
     procesar_acciones entorno_demo
       (dos_tags ''AGREGAR_CARRITO'' [] ''1|Ramo de 12 Rosas Rojas|80'' '' listo ''
          ''2|Ramo de 12 Rosas Rojas|80'' []) conv_demo =
       Inr (''listo [AGREGAR_CARRITO:2|Ramo de 12 Rosas Rojas|80]'', [], accs, c') \<and>
     length (filter es_agregar accs) \<le> 1 \<and>
     (unidades c' = unidades conv_demo \<or> unidades c' = unidades conv_demo + 1)"
proof -
  let ?b1 = "''1|Ramo de 12 Rosas Rojas|80''"
  let ?b2 = "''2|Ramo de 12 Rosas Rojas|80''"
  let ?r = "dos_tags ''AGREGAR_CARRITO'' [] ?b1 '' listo '' ?b2 []"
  have h: "sin_abrir [] \<and> sin_abrir '' listo '' \<and> sin_abrir [] \<and> cuerpo_simple ?b1 \<and> cuerpo_simple ?b2"
    by (simp add: sin_abrir_def cuerpo_simple_def)
  have s: "strip ([] @ '' listo '' @ (if ?b2 = ?b1 then [] else texto_tag ''AGREGAR_CARRITO'' ?b2) @ []) =
      ''listo [AGREGAR_CARRITO:2|Ramo de 12 Rosas Rojas|80]''"
    by code_simp
  note T = una_directiva_por_tipo [of entorno_demo ?r conv_demo "[]" "'' listo ''" "[]" ?b1 ?b2]
  from T h obtain accs c' where
    p: "procesar_acciones entorno_demo ?r conv_demo =
        Inr (strip ([] @ '' listo '' @ (if ?b2 = ?b1 then [] else texto_tag ''AGREGAR_CARRITO'' ?b2) @ []),
             [], accs, c')"
    by blast
  from T p have "length (filter es_agregar accs) \<le> 1 \<and>
      (unidades c' = unidades conv_demo \<or> unidades c' = unidades conv_demo + 1)"
    by blast
  with p s show ?thesis by auto
qed

end
